theory Spec2Isabelle
  imports Main "HOL-Library.Word"
begin

section \<open>Ledger runtime and ciphertext engine\<close>

text \<open>
  The two contracts \<^verbatim>\<open>contracts/TreasuryDAO.sol\<close> (the Confidential-spend variant) and
  \<^verbatim>\<open>contracts/SimpleTreasuryDAO.sol\<close> (the Simple variant) are embedded as functions from
  a call environment and a contract state to either an error (the call reverts and the
  state stays as it was) or the new state.

  Solidity's \<^verbatim>\<open>address\<close> is a 160-bit word, \<^verbatim>\<open>uint256\<close> a 256-bit word whose
  arithmetic is checked (Solidity 0.8: an overflow reverts with \<^verbatim>\<open>Panic(0x11)\<close>, an
  out-of-range array index with \<^verbatim>\<open>Panic(0x32)\<close>). An \<^verbatim>\<open>euint64\<close> ciphertext handle is
  represented by the 64-bit plaintext it decrypts to. Events change neither the
  contract's fields nor its control flow and are left out. So are the decryption-rights
  grants (\<^verbatim>\<open>FHE.allow\<close>, \<^verbatim>\<open>FHE.allowThis\<close>) on a handle that the contract has
  itself produced in the call or been granted before: the access-control list accepts
  them. The one grant on a handle that was never assigned, in the constructor of
  \<^verbatim>\<open>TreasuryDAO.sol\<close>, is modelled (\<open>FHE_allow\<close>). A function that is not
  \<^verbatim>\<open>payable\<close> reverts with empty data, before its body runs, when the call carries
  value (\<open>NonPayable\<close>); the function bodies below are the calls without value, and
  \<open>dao_external\<close> adds the check.
\<close>

type_synonym address = "160 word"
type_synonym uint256 = "256 word"
type_synonym euint64 = "64 word"

datatype error =
    NotOwner | NotMember | PastDeadline | AlreadyVoted | AlreadyExecuted
  | QuorumNotReached | VotingOngoing | InvalidVotingPeriod | InvalidRecipient
  | InsufficientDeposit | ProposalNotFound | VotingEnded | NotProposer
  | InvalidAmount | InvalidDeadline | NotFinalized | AlreadyFinalized
  | Panic nat
  | ErrorString string
  | InvalidProof
  | SenderNotAllowed
  | NonPayable
  | TransferFailed

text \<open>The errors that \<^verbatim>\<open>TreasuryDAO.sol\<close> declares (lines 35 to 43).\<close>

fun TreasuryDAO_error :: "error \<Rightarrow> bool" where
  "TreasuryDAO_error NotOwner = True"
| "TreasuryDAO_error NotMember = True"
| "TreasuryDAO_error PastDeadline = True"
| "TreasuryDAO_error AlreadyVoted = True"
| "TreasuryDAO_error AlreadyExecuted = True"
| "TreasuryDAO_error QuorumNotReached = True"
| "TreasuryDAO_error VotingOngoing = True"
| "TreasuryDAO_error InvalidVotingPeriod = True"
| "TreasuryDAO_error InvalidRecipient = True"
| "TreasuryDAO_error _ = False"

record env =
  sender :: address
  timestamp :: uint256

definition ARITHMETIC_OVERFLOW :: nat where
  "ARITHMETIC_OVERFLOW = 0x11"

definition ARRAY_OUT_OF_BOUNDS :: nat where
  "ARRAY_OUT_OF_BOUNDS = 0x32"

definition checked_add :: "uint256 \<Rightarrow> uint256 \<Rightarrow> error + uint256" where
  "checked_add a b =
     (if unat a + unat b < 2 ^ 256 then Inr (a + b) else Inl (Panic ARITHMETIC_OVERFLOW))"

definition checked_mul :: "uint256 \<Rightarrow> uint256 \<Rightarrow> error + uint256" where
  "checked_mul a b =
     (if unat a * unat b < 2 ^ 256 then Inr (a * b) else Inl (Panic ARITHMETIC_OVERFLOW))"

text \<open>
  Modelled from the spec: the library \<^verbatim>\<open>@fhevm/solidity/lib/FHE.sol\<close> is imported by both
  contracts and is not part of the sources. Its operations are given the meaning the
  specification's glossary states for a homomorphic operation: the result decrypts to the
  same operation applied to the plaintexts, here on 64-bit unsigned values. An
  uninitialised handle stands for zero. \<^verbatim>\<open>FHE.fromExternal\<close> checks the input proof and
  fails the call when it is invalid: the externally supplied ciphertext and its proof are
  an \<open>euint64 option\<close>, \<open>None\<close> for an invalid proof.
\<close>

definition FHE_asEuint64 :: "nat \<Rightarrow> euint64" where
  "FHE_asEuint64 n = of_nat n"

definition FHE_add :: "euint64 \<Rightarrow> euint64 \<Rightarrow> euint64" where
  "FHE_add a b = a + b"

definition FHE_sub :: "euint64 \<Rightarrow> euint64 \<Rightarrow> euint64" where
  "FHE_sub a b = a - b"

definition FHE_le :: "euint64 \<Rightarrow> euint64 \<Rightarrow> bool" where
  "FHE_le a b = (a \<le> b)"

definition FHE_eq :: "euint64 \<Rightarrow> euint64 \<Rightarrow> bool" where
  "FHE_eq a b = (a = b)"

definition FHE_select :: "bool \<Rightarrow> euint64 \<Rightarrow> euint64 \<Rightarrow> euint64" where
  "FHE_select c a b = (if c then a else b)"

definition FHE_fromExternal :: "euint64 option \<Rightarrow> error + euint64" where
  "FHE_fromExternal x = (case x of None \<Rightarrow> Inl InvalidProof | Some v \<Rightarrow> Inr v)"

text \<open>
  Modelled from the spec: \<^verbatim>\<open>FHE.allowThis\<close> and \<^verbatim>\<open>FHE.allow\<close> (\<open>grantSelfAccess\<close>,
  \<open>grantAccess\<close>) ask the access-control list of the ciphertext engine, which is not
  part of the sources, to record a permission. The list refuses the grant, and the call
  fails with \<^verbatim>\<open>SenderNotAllowed\<close>, when the granting contract is not itself allowed on
  the handle; \<open>allowed\<close> is the list's answer.
\<close>

definition FHE_allow :: "bool \<Rightarrow> error + unit" where
  "FHE_allow allowed = (if allowed then Inr () else Inl SenderNotAllowed)"

section \<open>The Confidential-spend variant: TreasuryDAO.sol\<close>

record Proposal =
  recipient :: address
  encAmount :: euint64
  yesVotes :: uint256
  deadline :: uint256
  executed :: bool
  executedEnc :: euint64

record TreasuryDAO =
  owner :: address
  quorum :: uint256
  treasury :: euint64
  proposals :: "Proposal list"
  voted :: "uint256 \<Rightarrow> address \<Rightarrow> bool"
  isMember :: "address \<Rightarrow> bool"

definition MIN_VOTING_PERIOD :: uint256 where
  "MIN_VOTING_PERIOD = 3600"

definition MAX_VOTING_PERIOD :: uint256 where
  "MAX_VOTING_PERIOD = 2592000"

text \<open>The constructor's loop sets the membership flag of each initial member in turn.\<close>

fun addMembers :: "address list \<Rightarrow> (address \<Rightarrow> bool) \<Rightarrow> (address \<Rightarrow> bool)" where
  "addMembers [] f = f"
| "addMembers (m # ms) f = addMembers ms (f(m := True))"

text \<open>
  The constructor grants rights on \<^verbatim>\<open>_treasury\<close> (lines 68 and 69) although no value has
  been assigned to it. Whether the access-control list lets the contract grant on the
  never-assigned handle is a fact of the ciphertext engine, given by \<open>acl_unassigned\<close>;
  the deployed engine allows nobody on that handle, so that there the deployment reverts
  with \<^verbatim>\<open>SenderNotAllowed\<close> whatever the arguments are.
\<close>

definition constructor ::
  "bool \<Rightarrow> env \<Rightarrow> address list \<Rightarrow> uint256 \<Rightarrow> error + TreasuryDAO" where
  "constructor acl_unassigned e initialMembers minQuorum =
     (let s = \<lparr>owner = sender e, quorum = minQuorum, treasury = 0, proposals = [],
               voted = (\<lambda>_ _. False), isMember = addMembers initialMembers (\<lambda>_. False)\<rparr>
      in case FHE_allow acl_unassigned of
           Inl err \<Rightarrow> Inl err
         | Inr _ \<Rightarrow> Inr s)"

definition addMember :: "env \<Rightarrow> address \<Rightarrow> TreasuryDAO \<Rightarrow> error + TreasuryDAO" where
  "addMember e m s =
     (if sender e \<noteq> owner s then Inl NotOwner
      else Inr (s\<lparr>isMember := (isMember s)(m := True)\<rparr>))"

definition removeMember :: "env \<Rightarrow> address \<Rightarrow> TreasuryDAO \<Rightarrow> error + TreasuryDAO" where
  "removeMember e m s =
     (if sender e \<noteq> owner s then Inl NotOwner
      else Inr (s\<lparr>isMember := (isMember s)(m := False)\<rparr>))"

definition depositEncrypted :: "env \<Rightarrow> euint64 option \<Rightarrow> TreasuryDAO \<Rightarrow> error + TreasuryDAO" where
  "depositEncrypted e encryptedAmt s =
     (if sender e \<noteq> owner s then Inl NotOwner
      else case FHE_fromExternal encryptedAmt of
        Inl err \<Rightarrow> Inl err
      | Inr amt \<Rightarrow> Inr (s\<lparr>treasury := FHE_add (treasury s) amt\<rparr>))"

definition getTreasury :: "TreasuryDAO \<Rightarrow> euint64" where
  "getTreasury s = treasury s"

definition createProposal ::
  "env \<Rightarrow> address \<Rightarrow> euint64 option \<Rightarrow> uint256 \<Rightarrow> TreasuryDAO \<Rightarrow> error + (uint256 \<times> TreasuryDAO)" where
  "createProposal e rcpt encryptedAmt votingPeriodSec s =
     (if \<not> isMember s (sender e) then Inl NotMember
      else if rcpt = 0 then Inl InvalidRecipient
      else if votingPeriodSec < MIN_VOTING_PERIOD \<or> votingPeriodSec > MAX_VOTING_PERIOD
        then Inl InvalidVotingPeriod
      else case FHE_fromExternal encryptedAmt of
        Inl err \<Rightarrow> Inl err
      | Inr enc \<Rightarrow>
         (case checked_add (timestamp e) votingPeriodSec of
            Inl err \<Rightarrow> Inl err
          | Inr dl \<Rightarrow>
             let p = \<lparr>recipient = rcpt, encAmount = enc, yesVotes = 0, deadline = dl,
                      executed = False, executedEnc = 0\<rparr>
             in Inr (of_nat (length (proposals s)), s\<lparr>proposals := proposals s @ [p]\<rparr>)))"

definition updateQuorum :: "env \<Rightarrow> uint256 \<Rightarrow> TreasuryDAO \<Rightarrow> error + TreasuryDAO" where
  "updateQuorum e newQuorum s =
     (if sender e \<noteq> owner s then Inl NotOwner
      else Inr (s\<lparr>quorum := newQuorum\<rparr>))"

definition voteYes :: "env \<Rightarrow> uint256 \<Rightarrow> TreasuryDAO \<Rightarrow> error + TreasuryDAO" where
  "voteYes e i s =
     (if \<not> isMember s (sender e) then Inl NotMember
      else if \<not> unat i < length (proposals s) then Inl (Panic ARRAY_OUT_OF_BOUNDS)
      else let p = proposals s ! unat i in
        if timestamp e > deadline p then Inl PastDeadline
        else if voted s i (sender e) then Inl AlreadyVoted
        else case checked_add (yesVotes p) 1 of
          Inl err \<Rightarrow> Inl err
        | Inr n \<Rightarrow>
           Inr (s\<lparr>voted := (voted s)(i := (voted s i)(sender e := True)),
                  proposals := (proposals s)[unat i := p\<lparr>yesVotes := n\<rparr>]\<rparr>))"

definition execute :: "env \<Rightarrow> uint256 \<Rightarrow> TreasuryDAO \<Rightarrow> error + TreasuryDAO" where
  "execute e i s =
     (if \<not> isMember s (sender e) then Inl NotMember
      else if \<not> unat i < length (proposals s) then Inl (Panic ARRAY_OUT_OF_BOUNDS)
      else let p = proposals s ! unat i in
        if executed p then Inl AlreadyExecuted
        else let quorumReached = (yesVotes p \<ge> quorum s) in
          if \<not> quorumReached then
            (if timestamp e < deadline p then Inl VotingOngoing else Inl QuorumNotReached)
          else
            let toSpend = FHE_select (FHE_le (encAmount p) (treasury s)) (encAmount p)
                            (FHE_asEuint64 0)
            in Inr (s\<lparr>treasury := FHE_sub (treasury s) toSpend,
                      proposals := (proposals s)
                         [unat i := p\<lparr>executedEnc := toSpend, executed := True\<rparr>]\<rparr>))"

definition getExecutedAmount :: "uint256 \<Rightarrow> TreasuryDAO \<Rightarrow> error + euint64" where
  "getExecutedAmount i s =
     (if \<not> unat i < length (proposals s) then Inl (Panic ARRAY_OUT_OF_BOUNDS)
      else Inr (executedEnc (proposals s ! unat i)))"

definition getRequestedAmount :: "uint256 \<Rightarrow> TreasuryDAO \<Rightarrow> error + euint64" where
  "getRequestedAmount i s =
     (if \<not> unat i < length (proposals s) then Inl (Panic ARRAY_OUT_OF_BOUNDS)
      else Inr (encAmount (proposals s ! unat i)))"

definition cancelProposal :: "env \<Rightarrow> uint256 \<Rightarrow> TreasuryDAO \<Rightarrow> error + TreasuryDAO" where
  "cancelProposal e i s =
     (if sender e \<noteq> owner s then Inl NotOwner
      else if \<not> unat i < length (proposals s) then Inl (Panic ARRAY_OUT_OF_BOUNDS)
      else let p = proposals s ! unat i in
        if executed p then Inl AlreadyExecuted
        else Inr (s\<lparr>proposals := (proposals s)
                     [unat i := p\<lparr>executed := True, executedEnc := FHE_asEuint64 0\<rparr>]\<rparr>))"

text \<open>
  A transaction is one call of a state-changing entry point. A call that reverts leaves
  the state as it was; a run applies transactions one after the other.
\<close>

datatype dao_call =
    AddMember address
  | RemoveMember address
  | DepositEncrypted "euint64 option"
  | CreateProposal address "euint64 option" uint256
  | UpdateQuorum uint256
  | VoteYes uint256
  | Execute uint256
  | CancelProposal uint256

fun dao_step :: "env \<Rightarrow> dao_call \<Rightarrow> TreasuryDAO \<Rightarrow> error + TreasuryDAO" where
  "dao_step e (AddMember m) s = addMember e m s"
| "dao_step e (RemoveMember m) s = removeMember e m s"
| "dao_step e (DepositEncrypted x) s = depositEncrypted e x s"
| "dao_step e (CreateProposal r x v) s = map_sum id snd (createProposal e r x v s)"
| "dao_step e (UpdateQuorum q) s = updateQuorum e q s"
| "dao_step e (VoteYes i) s = voteYes e i s"
| "dao_step e (Execute i) s = execute e i s"
| "dao_step e (CancelProposal i) s = cancelProposal e i s"

definition dao_tx :: "TreasuryDAO \<Rightarrow> env \<times> dao_call \<Rightarrow> TreasuryDAO" where
  "dao_tx s ec = (case dao_step (fst ec) (snd ec) s of Inl _ \<Rightarrow> s | Inr s' \<Rightarrow> s')"

fun dao_run :: "TreasuryDAO \<Rightarrow> (env \<times> dao_call) list \<Rightarrow> TreasuryDAO" where
  "dao_run s [] = s"
| "dao_run s (ec # ecs) = dao_run (dao_tx s ec) ecs"

text \<open>
  The contract as it is called from outside. The constructor and each of the eleven
  functions it declares are not \<^verbatim>\<open>payable\<close>: a call that carries value
  (\<^verbatim>\<open>msg.value\<close>, the first argument) reverts before the body runs. Such a call changes
  nothing, so that the transactions of a run are calls without value.
\<close>

datatype dao_view = GetTreasury | GetExecutedAmount uint256 | GetRequestedAmount uint256

definition deploy ::
  "uint256 \<Rightarrow> bool \<Rightarrow> env \<Rightarrow> address list \<Rightarrow> uint256 \<Rightarrow> error + TreasuryDAO" where
  "deploy msg_value acl_unassigned e initialMembers minQuorum =
     (if msg_value \<noteq> 0 then Inl NonPayable
      else constructor acl_unassigned e initialMembers minQuorum)"

definition dao_external ::
  "uint256 \<Rightarrow> env \<Rightarrow> dao_call \<Rightarrow> TreasuryDAO \<Rightarrow> error + TreasuryDAO" where
  "dao_external msg_value e c s =
     (if msg_value \<noteq> 0 then Inl NonPayable else dao_step e c s)"

definition dao_external_view :: "uint256 \<Rightarrow> dao_view \<Rightarrow> TreasuryDAO \<Rightarrow> error + euint64" where
  "dao_external_view msg_value w s =
     (if msg_value \<noteq> 0 then Inl NonPayable
      else case w of
        GetTreasury \<Rightarrow> Inr (getTreasury s)
      | GetExecutedAmount i \<Rightarrow> getExecutedAmount i s
      | GetRequestedAmount i \<Rightarrow> getRequestedAmount i s)"

section \<open>The Simple variant: SimpleTreasuryDAO.sol\<close>

record SimpleProposal =
  idS :: uint256
  title :: string
  description :: string
  proposer :: address
  amount :: uint256
  recipientS :: address
  deadlineS :: uint256
  encryptedYesVotes :: euint64
  encryptedNoVotes :: euint64
  finalized :: bool

record SimpleTreasuryDAO =
  ownerS :: address
  minDepositToVote :: uint256
  proposalsS :: "SimpleProposal list"
  deposits :: "address \<Rightarrow> uint256"
  hasVoted :: "uint256 \<Rightarrow> address \<Rightarrow> bool"

definition ONE_DAY :: uint256 where
  "ONE_DAY = 86400"

definition constructorS :: "env \<Rightarrow> uint256 \<Rightarrow> SimpleTreasuryDAO" where
  "constructorS e minDeposit =
     \<lparr>ownerS = sender e, minDepositToVote = minDeposit, proposalsS = [],
      deposits = (\<lambda>_. 0), hasVoted = (\<lambda>_ _. False)\<rparr>"

text \<open>\<^verbatim>\<open>deposit\<close> is payable: the second argument is \<^verbatim>\<open>msg.value\<close>.\<close>

definition deposit :: "env \<Rightarrow> uint256 \<Rightarrow> SimpleTreasuryDAO \<Rightarrow> error + SimpleTreasuryDAO" where
  "deposit e msg_value s =
     (if msg_value = 0 then Inl InvalidAmount
      else case checked_add (deposits s (sender e)) msg_value of
        Inl err \<Rightarrow> Inl err
      | Inr b \<Rightarrow> Inr (s\<lparr>deposits := (deposits s)(sender e := b)\<rparr>))"

text \<open>
  \<^verbatim>\<open>payable(msg.sender).transfer(amount)\<close> reverts the call when the caller cannot
  receive the funds; whether it can is a fact of the ledger, given by \<open>transfer_ok\<close>.
\<close>

definition withdraw ::
  "env \<Rightarrow> bool \<Rightarrow> uint256 \<Rightarrow> SimpleTreasuryDAO \<Rightarrow> error + SimpleTreasuryDAO" where
  "withdraw e transfer_ok amt s =
     (if deposits s (sender e) < amt then Inl InvalidAmount
      else if \<not> transfer_ok then Inl TransferFailed
      else Inr (s\<lparr>deposits := (deposits s)(sender e := deposits s (sender e) - amt)\<rparr>))"

definition createProposalS ::
  "env \<Rightarrow> string \<Rightarrow> string \<Rightarrow> uint256 \<Rightarrow> address \<Rightarrow> uint256 \<Rightarrow> SimpleTreasuryDAO
     \<Rightarrow> error + (uint256 \<times> SimpleTreasuryDAO)" where
  "createProposalS e ttl descr amt rcpt votingPeriodDays s =
     (if deposits s (sender e) < minDepositToVote s then Inl InsufficientDeposit
      else if amt = 0 then Inl InvalidAmount
      else if rcpt = 0 then Inl InvalidRecipient
      else if votingPeriodDays = 0 \<or> votingPeriodDays > 30 then Inl InvalidDeadline
      else let proposalId = of_nat (length (proposalsS s)) in
        case checked_mul votingPeriodDays ONE_DAY of
          Inl err \<Rightarrow> Inl err
        | Inr period \<Rightarrow>
           (case checked_add (timestamp e) period of
              Inl err \<Rightarrow> Inl err
            | Inr dl \<Rightarrow>
               let newProposal =
                 \<lparr>idS = proposalId, title = ttl, description = descr, proposer = sender e,
                  amount = amt, recipientS = rcpt, deadlineS = dl,
                  encryptedYesVotes = FHE_asEuint64 0, encryptedNoVotes = FHE_asEuint64 0,
                  finalized = False\<rparr>
               in Inr (proposalId, s\<lparr>proposalsS := proposalsS s @ [newProposal]\<rparr>)))"

definition vote ::
  "env \<Rightarrow> uint256 \<Rightarrow> euint64 option \<Rightarrow> SimpleTreasuryDAO \<Rightarrow> error + SimpleTreasuryDAO" where
  "vote e proposalId encryptedVote s =
     (if unat proposalId \<ge> length (proposalsS s) then Inl ProposalNotFound
      else if deposits s (sender e) < minDepositToVote s then Inl InsufficientDeposit
      else if hasVoted s proposalId (sender e) then Inl AlreadyVoted
      else let proposal = proposalsS s ! unat proposalId in
        if timestamp e > deadlineS proposal then Inl VotingEnded
        else case FHE_fromExternal encryptedVote of
          Inl err \<Rightarrow> Inl err
        | Inr voteValue \<Rightarrow>
           let yesIncrement = FHE_select (FHE_eq voteValue (FHE_asEuint64 1))
                                (FHE_asEuint64 1) (FHE_asEuint64 0);
               noIncrement = FHE_select (FHE_eq voteValue (FHE_asEuint64 0))
                                (FHE_asEuint64 1) (FHE_asEuint64 0)
           in Inr (s\<lparr>proposalsS := (proposalsS s)
                        [unat proposalId := proposal
                           \<lparr>encryptedYesVotes := FHE_add (encryptedYesVotes proposal) yesIncrement,
                            encryptedNoVotes := FHE_add (encryptedNoVotes proposal) noIncrement\<rparr>],
                     hasVoted := (hasVoted s)
                        (proposalId := (hasVoted s proposalId)(sender e := True))\<rparr>))"

definition finalizeProposal :: "env \<Rightarrow> uint256 \<Rightarrow> SimpleTreasuryDAO \<Rightarrow> error + SimpleTreasuryDAO" where
  "finalizeProposal e proposalId s =
     (if unat proposalId \<ge> length (proposalsS s) then Inl ProposalNotFound
      else let proposal = proposalsS s ! unat proposalId in
        if finalized proposal then Inl AlreadyFinalized
        else if sender e \<noteq> ownerS s \<and> sender e \<noteq> proposer proposal then Inl NotProposer
        else if timestamp e \<le> deadlineS proposal then Inl VotingEnded
        else Inr (s\<lparr>proposalsS := (proposalsS s)
                     [unat proposalId := proposal\<lparr>finalized := True\<rparr>]\<rparr>))"

definition getYesVotes :: "uint256 \<Rightarrow> SimpleTreasuryDAO \<Rightarrow> error + euint64" where
  "getYesVotes proposalId s =
     (if unat proposalId \<ge> length (proposalsS s) then Inl ProposalNotFound
      else let proposal = proposalsS s ! unat proposalId in
        if \<not> finalized proposal then Inl NotFinalized
        else Inr (encryptedYesVotes proposal))"

definition getNoVotes :: "uint256 \<Rightarrow> SimpleTreasuryDAO \<Rightarrow> error + euint64" where
  "getNoVotes proposalId s =
     (if unat proposalId \<ge> length (proposalsS s) then Inl ProposalNotFound
      else let proposal = proposalsS s ! unat proposalId in
        if \<not> finalized proposal then Inl NotFinalized
        else Inr (encryptedNoVotes proposal))"

definition getProposalCount :: "SimpleTreasuryDAO \<Rightarrow> uint256" where
  "getProposalCount s = of_nat (length (proposalsS s))"

definition getProposal ::
  "uint256 \<Rightarrow> SimpleTreasuryDAO
     \<Rightarrow> error + (uint256 \<times> string \<times> string \<times> address \<times> uint256 \<times> address \<times> uint256 \<times> bool)" where
  "getProposal proposalId s =
     (if unat proposalId \<ge> length (proposalsS s) then Inl ProposalNotFound
      else let p = proposalsS s ! unat proposalId in
        Inr (idS p, title p, description p, proposer p, amount p, recipientS p, deadlineS p,
             finalized p))"

definition updateMinDeposit :: "env \<Rightarrow> uint256 \<Rightarrow> SimpleTreasuryDAO \<Rightarrow> error + SimpleTreasuryDAO" where
  "updateMinDeposit e newMinDeposit s =
     (if sender e \<noteq> ownerS s then Inl (ErrorString ''Not owner'')
      else Inr (s\<lparr>minDepositToVote := newMinDeposit\<rparr>))"

datatype simple_call =
    Deposit uint256
  | Withdraw bool uint256
  | CreateProposalS string string uint256 address uint256
  | Vote uint256 "euint64 option"
  | FinalizeProposal uint256
  | UpdateMinDeposit uint256

fun simple_step :: "env \<Rightarrow> simple_call \<Rightarrow> SimpleTreasuryDAO \<Rightarrow> error + SimpleTreasuryDAO" where
  "simple_step e (Deposit v) s = deposit e v s"
| "simple_step e (Withdraw ok a) s = withdraw e ok a s"
| "simple_step e (CreateProposalS t d a r v) s = map_sum id snd (createProposalS e t d a r v s)"
| "simple_step e (Vote i x) s = vote e i x s"
| "simple_step e (FinalizeProposal i) s = finalizeProposal e i s"
| "simple_step e (UpdateMinDeposit m) s = updateMinDeposit e m s"

definition simple_tx :: "SimpleTreasuryDAO \<Rightarrow> env \<times> simple_call \<Rightarrow> SimpleTreasuryDAO" where
  "simple_tx s ec = (case simple_step (fst ec) (snd ec) s of Inl _ \<Rightarrow> s | Inr s' \<Rightarrow> s')"

fun simple_run :: "SimpleTreasuryDAO \<Rightarrow> (env \<times> simple_call) list \<Rightarrow> SimpleTreasuryDAO" where
  "simple_run s [] = s"
| "simple_run s (ec # ecs) = simple_run (simple_tx s ec) ecs"

section \<open>Example scenarios\<close>

text \<open>
  The scenarios of the specification's section 8, built by running transactions. The
  Confidential-spend contract starts from the storage that its constructor's assignments
  leave for an owner (address 1), members 2, 3 and 4 and a quorum of two yes votes; it
  then gets a treasury of 100 and a proposal asking for 30. The Simple contract starts
  from its constructor with a minimum deposit of 0.001 ETH, and gets a depositor
  (address 2) and a seven-day proposal.
\<close>

definition dao_init :: TreasuryDAO where
  "dao_init = \<lparr>owner = 1, quorum = 2, treasury = 0, proposals = [],
      voted = (\<lambda>_ _. False), isMember = addMembers [2, 3, 4] (\<lambda>_. False)\<rparr>"

definition dao_funded :: TreasuryDAO where
  "dao_funded = dao_run dao_init
     [(\<lparr>sender = 1, timestamp = 10\<rparr>, DepositEncrypted (Some 100)),
      (\<lparr>sender = 2, timestamp = 100\<rparr>, CreateProposal 9 (Some 30) 86400)]"

definition dao_one_vote :: TreasuryDAO where
  "dao_one_vote = dao_run dao_funded [(\<lparr>sender = 2, timestamp = 200\<rparr>, VoteYes 0)]"

definition dao_voted :: TreasuryDAO where
  "dao_voted = dao_run dao_one_vote [(\<lparr>sender = 3, timestamp = 300\<rparr>, VoteYes 0)]"

definition dao_executed :: TreasuryDAO where
  "dao_executed = dao_run dao_voted [(\<lparr>sender = 2, timestamp = 400\<rparr>, Execute 0)]"

definition simple_init :: SimpleTreasuryDAO where
  "simple_init = constructorS \<lparr>sender = 1, timestamp = 0\<rparr> 1000000000000000"

definition simple_open :: SimpleTreasuryDAO where
  "simple_open = simple_run simple_init
     [(\<lparr>sender = 2, timestamp = 500\<rparr>, Deposit 10000000000000000),
      (\<lparr>sender = 2, timestamp = 1000\<rparr>,
         CreateProposalS ''Grant'' ''Fund the audit'' 1000000000000000000 3 7)]"

definition simple_voted :: SimpleTreasuryDAO where
  "simple_voted = simple_run simple_open
     [(\<lparr>sender = 2, timestamp = 2000\<rparr>, Vote 0 (Some 1))]"

definition simple_finalized :: SimpleTreasuryDAO where
  "simple_finalized = simple_run simple_voted
     [(\<lparr>sender = 2, timestamp = 700000\<rparr>, FinalizeProposal 0)]"

text \<open>
  The sum of the values of the successful deposits, and of the amounts of the successful
  withdrawals, that an identity makes in a run of transactions.
\<close>

definition credit :: "address \<Rightarrow> SimpleTreasuryDAO \<Rightarrow> env \<times> simple_call \<Rightarrow> nat" where
  "credit a s ec =
     (case snd ec of
        Deposit v \<Rightarrow> if sender (fst ec) = a \<and> \<not> isl (deposit (fst ec) v s) then unat v else 0
      | _ \<Rightarrow> 0)"

definition debit :: "address \<Rightarrow> SimpleTreasuryDAO \<Rightarrow> env \<times> simple_call \<Rightarrow> nat" where
  "debit a s ec =
     (case snd ec of
        Withdraw ok amt \<Rightarrow>
          if sender (fst ec) = a \<and> \<not> isl (withdraw (fst ec) ok amt s) then unat amt else 0
      | _ \<Rightarrow> 0)"

fun deposited :: "address \<Rightarrow> SimpleTreasuryDAO \<Rightarrow> (env \<times> simple_call) list \<Rightarrow> nat" where
  "deposited a s [] = 0"
| "deposited a s (ec # ecs) = credit a s ec + deposited a (simple_tx s ec) ecs"

fun withdrawn :: "address \<Rightarrow> SimpleTreasuryDAO \<Rightarrow> (env \<times> simple_call) list \<Rightarrow> nat" where
  "withdrawn a s [] = 0"
| "withdrawn a s (ec # ecs) = debit a s ec + withdrawn a (simple_tx s ec) ecs"

definition ledger_run :: "(env \<times> simple_call) list" where
  "ledger_run =
     [(\<lparr>sender = 2, timestamp = 10\<rparr>, Deposit 50),
      (\<lparr>sender = 2, timestamp = 20\<rparr>, Deposit 0),
      (\<lparr>sender = 3, timestamp = 30\<rparr>, Deposit 7),
      (\<lparr>sender = 2, timestamp = 40\<rparr>, Withdraw True 20),
      (\<lparr>sender = 2, timestamp = 50\<rparr>, Withdraw True 31),
      (\<lparr>sender = 2, timestamp = 60\<rparr>, Withdraw False 5)]"

section \<open>Facts that every transaction preserves\<close>

lemmas dao_defs = addMember_def removeMember_def depositEncrypted_def createProposal_def
  updateQuorum_def voteYes_def execute_def cancelProposal_def FHE_fromExternal_def checked_add_def

lemma dao_tx_length: "length (proposals s) \<le> length (proposals (dao_tx s ec))"
  by (cases ec, cases "snd ec")
     (auto simp: dao_tx_def dao_defs Let_def split: sum.splits if_splits option.splits)

lemma dao_tx_voted: "voted s i a \<Longrightarrow> voted (dao_tx s ec) i a"
  by (cases ec, cases "snd ec")
     (auto simp: dao_tx_def dao_defs Let_def split: sum.splits if_splits option.splits)

lemma dao_tx_executed:
  "n < length (proposals s) \<Longrightarrow> executed (proposals s ! n)
     \<Longrightarrow> executed (proposals (dao_tx s ec) ! n)"
  by (cases ec, cases "snd ec")
     (auto simp: dao_tx_def dao_defs Let_def nth_list_update nth_append
           split: sum.splits if_splits option.splits)

lemma dao_tx_deadline:
  "n < length (proposals s) \<Longrightarrow> deadline (proposals (dao_tx s ec) ! n) = deadline (proposals s ! n)"
  by (cases ec, cases "snd ec")
     (auto simp: dao_tx_def dao_defs Let_def nth_list_update nth_append
           split: sum.splits if_splits option.splits)

lemma dao_run_length: "length (proposals s) \<le> length (proposals (dao_run s ecs))"
proof (induction ecs arbitrary: s)
  case Nil
  show ?case by simp
next
  case (Cons ec ecs)
  have "length (proposals s) \<le> length (proposals (dao_tx s ec))"
    by (rule dao_tx_length)
  also have "\<dots> \<le> length (proposals (dao_run (dao_tx s ec) ecs))"
    by (rule Cons.IH)
  finally show ?case by simp
qed

lemma dao_run_voted: "voted s i a \<Longrightarrow> voted (dao_run s ecs) i a"
  by (induction ecs arbitrary: s) (simp_all add: dao_tx_voted)

lemma dao_run_executed:
  "n < length (proposals s) \<Longrightarrow> executed (proposals s ! n)
     \<Longrightarrow> executed (proposals (dao_run s ecs) ! n)"
proof (induction ecs arbitrary: s)
  case Nil
  then show ?case by simp
next
  case (Cons ec ecs)
  have "n < length (proposals (dao_tx s ec))"
    using Cons.prems(1) dao_tx_length [of s ec] by simp
  moreover have "executed (proposals (dao_tx s ec) ! n)"
    using Cons.prems by (rule dao_tx_executed)
  ultimately show ?case
    using Cons.IH by simp
qed

lemma dao_run_deadline:
  "n < length (proposals s) \<Longrightarrow> deadline (proposals (dao_run s ecs) ! n) = deadline (proposals s ! n)"
proof (induction ecs arbitrary: s)
  case Nil
  then show ?case by simp
next
  case (Cons ec ecs)
  have "n < length (proposals (dao_tx s ec))"
    using Cons.prems dao_tx_length [of s ec] by simp
  then show ?case
    using Cons.IH [of "dao_tx s ec"] dao_tx_deadline [OF Cons.prems, of ec] by simp
qed

lemmas simple_defs = deposit_def withdraw_def createProposalS_def vote_def finalizeProposal_def
  updateMinDeposit_def FHE_fromExternal_def checked_add_def checked_mul_def

lemma simple_tx_length: "length (proposalsS s) \<le> length (proposalsS (simple_tx s ec))"
  by (cases ec, cases "snd ec")
     (auto simp: simple_tx_def simple_defs Let_def split: sum.splits if_splits option.splits)

lemma simple_tx_hasVoted: "hasVoted s i a \<Longrightarrow> hasVoted (simple_tx s ec) i a"
  by (cases ec, cases "snd ec")
     (auto simp: simple_tx_def simple_defs Let_def split: sum.splits if_splits option.splits)

lemma simple_tx_finalized:
  "n < length (proposalsS s) \<Longrightarrow> finalized (proposalsS s ! n)
     \<Longrightarrow> finalized (proposalsS (simple_tx s ec) ! n)"
  by (cases ec, cases "snd ec")
     (auto simp: simple_tx_def simple_defs Let_def nth_list_update nth_append
           split: sum.splits if_splits option.splits)

lemma simple_tx_deadlineS:
  "n < length (proposalsS s)
     \<Longrightarrow> deadlineS (proposalsS (simple_tx s ec) ! n) = deadlineS (proposalsS s ! n)"
  by (cases ec, cases "snd ec")
     (auto simp: simple_tx_def simple_defs Let_def nth_list_update nth_append
           split: sum.splits if_splits option.splits)

lemma simple_run_length: "length (proposalsS s) \<le> length (proposalsS (simple_run s ecs))"
proof (induction ecs arbitrary: s)
  case Nil
  show ?case by simp
next
  case (Cons ec ecs)
  have "length (proposalsS s) \<le> length (proposalsS (simple_tx s ec))"
    by (rule simple_tx_length)
  also have "\<dots> \<le> length (proposalsS (simple_run (simple_tx s ec) ecs))"
    by (rule Cons.IH)
  finally show ?case by simp
qed

lemma simple_run_hasVoted: "hasVoted s i a \<Longrightarrow> hasVoted (simple_run s ecs) i a"
  by (induction ecs arbitrary: s) (simp_all add: simple_tx_hasVoted)

lemma simple_run_finalized:
  "n < length (proposalsS s) \<Longrightarrow> finalized (proposalsS s ! n)
     \<Longrightarrow> finalized (proposalsS (simple_run s ecs) ! n)"
proof (induction ecs arbitrary: s)
  case Nil
  then show ?case by simp
next
  case (Cons ec ecs)
  have "n < length (proposalsS (simple_tx s ec))"
    using Cons.prems(1) simple_tx_length [of s ec] by simp
  moreover have "finalized (proposalsS (simple_tx s ec) ! n)"
    using Cons.prems by (rule simple_tx_finalized)
  ultimately show ?case
    using Cons.IH by simp
qed

lemma simple_run_deadlineS:
  "n < length (proposalsS s)
     \<Longrightarrow> deadlineS (proposalsS (simple_run s ecs) ! n) = deadlineS (proposalsS s ! n)"
proof (induction ecs arbitrary: s)
  case Nil
  then show ?case by simp
next
  case (Cons ec ecs)
  have "n < length (proposalsS (simple_tx s ec))"
    using Cons.prems simple_tx_length [of s ec] by simp
  then show ?case
    using Cons.IH [of "simple_tx s ec"] simple_tx_deadlineS [OF Cons.prems, of ec] by simp
qed

section \<open>The example scenarios, evaluated\<close>

lemma dao_init_eq:
  "dao_init = \<lparr>owner = 1, quorum = 2, treasury = 0, proposals = [],
      voted = (\<lambda>_ _. False), isMember = (\<lambda>_. False)(2 := True, 3 := True, 4 := True)\<rparr>"
  by (simp add: dao_init_def)

lemma constructor_dao_init:
  "constructor True \<lparr>sender = 1, timestamp = 0\<rparr> [2, 3, 4] 2 = Inr dao_init"
  by (simp add: constructor_def FHE_allow_def dao_init_def)

lemma constructor_refused:
  "constructor False e initialMembers minQuorum = Inl SenderNotAllowed"
  by (simp add: constructor_def FHE_allow_def)

lemma dao_funded_eq:
  "dao_funded = \<lparr>owner = 1, quorum = 2, treasury = 100,
      proposals = [\<lparr>recipient = 9, encAmount = 30, yesVotes = 0, deadline = 86500,
                    executed = False, executedEnc = 0\<rparr>],
      voted = (\<lambda>_ _. False), isMember = (\<lambda>_. False)(2 := True, 3 := True, 4 := True)\<rparr>"
  by (simp add: dao_funded_def dao_init_eq dao_tx_def depositEncrypted_def createProposal_def
      FHE_fromExternal_def FHE_add_def checked_add_def MIN_VOTING_PERIOD_def
      MAX_VOTING_PERIOD_def)

lemma dao_one_vote_eq:
  "dao_one_vote = \<lparr>owner = 1, quorum = 2, treasury = 100,
      proposals = [\<lparr>recipient = 9, encAmount = 30, yesVotes = 1, deadline = 86500,
                    executed = False, executedEnc = 0\<rparr>],
      voted = (\<lambda>_ _. False)(0 := (\<lambda>_. False)(2 := True)),
      isMember = (\<lambda>_. False)(2 := True, 3 := True, 4 := True)\<rparr>"
  by (simp add: dao_one_vote_def dao_funded_eq dao_tx_def voteYes_def checked_add_def)

lemma dao_voted_eq:
  "dao_voted = \<lparr>owner = 1, quorum = 2, treasury = 100,
      proposals = [\<lparr>recipient = 9, encAmount = 30, yesVotes = 2, deadline = 86500,
                    executed = False, executedEnc = 0\<rparr>],
      voted = (\<lambda>_ _. False)(0 := (\<lambda>_. False)(2 := True, 3 := True)),
      isMember = (\<lambda>_. False)(2 := True, 3 := True, 4 := True)\<rparr>"
  by (simp add: dao_voted_def dao_one_vote_eq dao_tx_def voteYes_def checked_add_def)

lemma dao_executed_eq:
  "dao_executed = \<lparr>owner = 1, quorum = 2, treasury = 70,
      proposals = [\<lparr>recipient = 9, encAmount = 30, yesVotes = 2, deadline = 86500,
                    executed = True, executedEnc = 30\<rparr>],
      voted = (\<lambda>_ _. False)(0 := (\<lambda>_. False)(2 := True, 3 := True)),
      isMember = (\<lambda>_. False)(2 := True, 3 := True, 4 := True)\<rparr>"
  by (simp add: dao_executed_def dao_voted_eq dao_tx_def execute_def FHE_select_def FHE_le_def
      FHE_sub_def FHE_asEuint64_def)

lemma simple_init_eq:
  "simple_init = \<lparr>ownerS = 1, minDepositToVote = 1000000000000000, proposalsS = [],
      deposits = (\<lambda>_. 0), hasVoted = (\<lambda>_ _. False)\<rparr>"
  by (simp add: simple_init_def constructorS_def)

lemma simple_open_eq:
  "simple_open = \<lparr>ownerS = 1, minDepositToVote = 1000000000000000,
      proposalsS = [\<lparr>idS = 0, title = ''Grant'', description = ''Fund the audit'',
         proposer = 2, amount = 1000000000000000000, recipientS = 3, deadlineS = 605800,
         encryptedYesVotes = 0, encryptedNoVotes = 0, finalized = False\<rparr>],
      deposits = (\<lambda>_. 0)(2 := 10000000000000000), hasVoted = (\<lambda>_ _. False)\<rparr>"
  by (simp add: simple_open_def simple_init_eq simple_tx_def deposit_def createProposalS_def
      checked_add_def checked_mul_def ONE_DAY_def FHE_asEuint64_def)

lemma simple_voted_eq:
  "simple_voted = \<lparr>ownerS = 1, minDepositToVote = 1000000000000000,
      proposalsS = [\<lparr>idS = 0, title = ''Grant'', description = ''Fund the audit'',
         proposer = 2, amount = 1000000000000000000, recipientS = 3, deadlineS = 605800,
         encryptedYesVotes = 1, encryptedNoVotes = 0, finalized = False\<rparr>],
      deposits = (\<lambda>_. 0)(2 := 10000000000000000),
      hasVoted = (\<lambda>_ _. False)(0 := (\<lambda>_. False)(2 := True))\<rparr>"
  by (simp add: simple_voted_def simple_open_eq simple_tx_def vote_def FHE_fromExternal_def
      FHE_select_def FHE_eq_def FHE_add_def FHE_asEuint64_def)

lemma simple_finalized_eq:
  "simple_finalized = \<lparr>ownerS = 1, minDepositToVote = 1000000000000000,
      proposalsS = [\<lparr>idS = 0, title = ''Grant'', description = ''Fund the audit'',
         proposer = 2, amount = 1000000000000000000, recipientS = 3, deadlineS = 605800,
         encryptedYesVotes = 1, encryptedNoVotes = 0, finalized = True\<rparr>],
      deposits = (\<lambda>_. 0)(2 := 10000000000000000),
      hasVoted = (\<lambda>_ _. False)(0 := (\<lambda>_. False)(2 := True))\<rparr>"
  by (simp add: simple_finalized_def simple_voted_eq simple_tx_def finalizeProposal_def Let_def
      word_le_nat_alt)

section \<open>Claims about the Confidential-spend variant\<close>

text \<open>
  Claim C1. When the quorum check of \<^verbatim>\<open>execute\<close> passes (the caller is a member, the
  proposal exists, is not yet executed and has at least \<open>quorum\<close> yes votes), the call
  succeeds whatever the balance is. It computes
  \<open>toSpend = select (encAmount \<le> treasury) encAmount 0\<close>, subtracts it from the treasury,
  stores it in \<open>executedEnc\<close> and sets \<open>executed\<close>. In plaintext: if the requested amount
  \<open>Y\<close> is at most the balance \<open>X\<close>, then \<open>executedEnc\<close> is \<open>Y\<close> and the treasury is
  \<open>X - Y\<close>; otherwise \<open>executedEnc\<close> is zero and the treasury is unchanged.
\<close>

theorem execute_fail_closed_clamp:
  assumes "isMember s (sender e)"
    and "unat i < length (proposals s)"
    and "\<not> executed (proposals s ! unat i)"
    and "quorum s \<le> yesVotes (proposals s ! unat i)"
  shows "\<exists>s'. execute e i s = Inr s' \<and>
     executedEnc (proposals s' ! unat i) =
        FHE_select (FHE_le (encAmount (proposals s ! unat i)) (treasury s))
          (encAmount (proposals s ! unat i)) (FHE_asEuint64 0) \<and>
     treasury s' = FHE_sub (treasury s) (executedEnc (proposals s' ! unat i)) \<and>
     executed (proposals s' ! unat i) \<and>
     (if unat (encAmount (proposals s ! unat i)) \<le> unat (treasury s)
      then unat (executedEnc (proposals s' ! unat i)) = unat (encAmount (proposals s ! unat i)) \<and>
           unat (treasury s') = unat (treasury s) - unat (encAmount (proposals s ! unat i))
      else unat (executedEnc (proposals s' ! unat i)) = 0 \<and> treasury s' = treasury s)"
  using assms
  by (simp add: execute_def Let_def FHE_select_def FHE_le_def FHE_sub_def FHE_asEuint64_def
      word_le_nat_alt unat_sub)

theorem execute_fail_closed_clamp_witness:
  "\<exists>s'. execute \<lparr>sender = 4, timestamp = 90000\<rparr> 0 dao_voted = Inr s' \<and>
     unat (executedEnc (proposals s' ! 0)) = 30 \<and> unat (treasury s') = 70 \<and>
     executed (proposals s' ! 0)"
  using execute_fail_closed_clamp [of dao_voted "\<lparr>sender = 4, timestamp = 90000\<rparr>" 0]
  by (auto simp: dao_voted_eq)

text \<open>
  Claim C9. A proposal that is not yet executed and has at least \<open>quorum\<close> yes votes is
  executed by a member's \<^verbatim>\<open>execute\<close> also when the current time is before the deadline:
  no check asks that the voting period has ended.
\<close>

theorem execute_before_deadline:
  assumes "isMember s (sender e)"
    and "unat i < length (proposals s)"
    and "\<not> executed (proposals s ! unat i)"
    and "quorum s \<le> yesVotes (proposals s ! unat i)"
    and "timestamp e < deadline (proposals s ! unat i)"
  shows "\<exists>s'. execute e i s = Inr s' \<and> executed (proposals s' ! unat i)"
  using assms by (simp add: execute_def Let_def)

theorem execute_before_deadline_witness:
  "timestamp \<lparr>sender = 2, timestamp = 400\<rparr> < deadline (proposals dao_voted ! 0) \<and>
   (\<exists>s'. execute \<lparr>sender = 2, timestamp = 400\<rparr> 0 dao_voted = Inr s' \<and>
      executed (proposals s' ! 0))"
  using execute_before_deadline [of dao_voted "\<lparr>sender = 2, timestamp = 400\<rparr>" 0]
  by (auto simp: dao_voted_eq)

text \<open>
  Claim C3 says that \<^verbatim>\<open>execute\<close> on a proposal short of the quorum fails with
  \<^verbatim>\<open>VotingOngoing\<close> while the current time is at most the deadline. At the deadline itself
  the contract answers \<^verbatim>\<open>QuorumNotReached\<close>, although \<^verbatim>\<open>voteYes\<close> still accepts a vote
  at that same time: the proposal has one yes vote of the two required, the time equals
  the deadline, \<^verbatim>\<open>execute\<close> reports the terminal error and \<^verbatim>\<open>voteYes\<close> succeeds.
\<close>

theorem execute_at_deadline_QuorumNotReached:
  "yesVotes (proposals dao_one_vote ! 0) < quorum dao_one_vote \<and>
   timestamp \<lparr>sender = 3, timestamp = 86500\<rparr> = deadline (proposals dao_one_vote ! 0) \<and>
   execute \<lparr>sender = 3, timestamp = 86500\<rparr> 0 dao_one_vote = Inl QuorumNotReached \<and>
   \<not> isl (voteYes \<lparr>sender = 3, timestamp = 86500\<rparr> 0 dao_one_vote)"
  by (simp add: dao_one_vote_eq execute_def voteYes_def checked_add_def Let_def word_le_nat_alt)

section \<open>Claims about the life cycle of a proposal\<close>

lemma execute_executed_fails:
  "unat i < length (proposals s) \<Longrightarrow> executed (proposals s ! unat i) \<Longrightarrow> isl (execute e i s)"
  by (simp add: execute_def Let_def)

lemma cancelProposal_executed_fails:
  "unat i < length (proposals s) \<Longrightarrow> executed (proposals s ! unat i)
     \<Longrightarrow> isl (cancelProposal e i s)"
  by (simp add: cancelProposal_def Let_def)

lemma voteYes_isl_iff:
  "unat i < length (proposals s) \<Longrightarrow>
     isl (voteYes e i s) \<longleftrightarrow>
       (\<not> isMember s (sender e) \<or> deadline (proposals s ! unat i) < timestamp e \<or>
        voted s i (sender e) \<or> \<not> unat (yesVotes (proposals s ! unat i)) + 1 < 2 ^ 256)"
  by (auto simp: voteYes_def Let_def checked_add_def)

lemma finalizeProposal_Inr:
  "finalizeProposal e i s = Inr s' \<Longrightarrow>
     unat i < length (proposalsS s') \<and> finalized (proposalsS s' ! unat i) \<and>
     deadlineS (proposalsS s' ! unat i) < timestamp e"
  by (auto simp: finalizeProposal_def Let_def split: if_splits)

lemma finalizeProposal_finalized_fails:
  "unat i < length (proposalsS s) \<Longrightarrow> finalized (proposalsS s ! unat i)
     \<Longrightarrow> isl (finalizeProposal e i s)"
  by (simp add: finalizeProposal_def Let_def)

lemma vote_past_deadline_fails:
  "unat i < length (proposalsS s) \<Longrightarrow> deadlineS (proposalsS s ! unat i) < timestamp (e::env)
     \<Longrightarrow> isl (vote e i b s)"
  by (simp add: vote_def Let_def)

text \<open>
  Claim C2 says that once \<open>executed\<close> is set, every later voting attempt on the proposal
  fails. \<^verbatim>\<open>voteYes\<close> never reads the flag: after members 2 and 3 have voted and member 2
  has executed proposal 0 before its deadline, member 4 still votes on it with success.
\<close>

theorem voteYes_after_execute_counterexample:
  "executed (proposals dao_executed ! 0) \<and>
   \<not> isl (voteYes \<lparr>sender = 4, timestamp = 500\<rparr> 0 dao_executed)"
  by (simp add: dao_executed_eq voteYes_def checked_add_def Let_def)

text \<open>
  Claim C2, amended. Once \<open>executed\<close> is set on a proposal of the Confidential-spend
  variant, it stays set after any further transactions, and every later \<^verbatim>\<open>execute\<close> and
  \<^verbatim>\<open>cancelProposal\<close> on it fails; \<^verbatim>\<open>voteYes\<close> does not depend on the flag and fails on
  it exactly when the caller is not a member, the time is past the deadline, the caller
  has already voted or the counter would overflow. Once \<^verbatim>\<open>finalizeProposal\<close> has
  succeeded on a proposal of the Simple variant, \<open>finalized\<close> stays set after any
  further transactions, and every \<^verbatim>\<open>vote\<close> and \<^verbatim>\<open>finalizeProposal\<close> on it at that
  time or later fails.
\<close>

theorem flag_forecloses_execution:
  "(unat i < length (proposals s) \<and> executed (proposals s ! unat i) \<longrightarrow>
      (\<forall>ecs e. executed (proposals (dao_run s ecs) ! unat i) \<and>
               isl (execute e i (dao_run s ecs)) \<and>
               isl (cancelProposal e i (dao_run s ecs)) \<and>
               (isl (voteYes e i (dao_run s ecs)) \<longleftrightarrow>
                  \<not> isMember (dao_run s ecs) (sender e) \<or>
                  deadline (proposals (dao_run s ecs) ! unat i) < timestamp e \<or>
                  voted (dao_run s ecs) i (sender e) \<or>
                  \<not> unat (yesVotes (proposals (dao_run s ecs) ! unat i)) + 1 < 2 ^ 256))) \<and>
   (finalizeProposal e0 j t = Inr t' \<longrightarrow>
      (\<forall>ecs e b. timestamp e0 \<le> timestamp e \<longrightarrow>
               finalized (proposalsS (simple_run t' ecs) ! unat j) \<and>
               isl (vote e j b (simple_run t' ecs)) \<and>
               isl (finalizeProposal e j (simple_run t' ecs))))"
proof (intro conjI impI allI)
  fix ecs e
  assume a: "unat i < length (proposals s) \<and> executed (proposals s ! unat i)"
  have len: "unat i < length (proposals (dao_run s ecs))"
    using a dao_run_length [of s ecs] by simp
  show ex: "executed (proposals (dao_run s ecs) ! unat i)"
    using a by (simp add: dao_run_executed)
  show "isl (execute e i (dao_run s ecs))"
    using len ex by (rule execute_executed_fails)
  show "isl (cancelProposal e i (dao_run s ecs))"
    using len ex by (rule cancelProposal_executed_fails)
  show "isl (voteYes e i (dao_run s ecs)) \<longleftrightarrow>
          \<not> isMember (dao_run s ecs) (sender e) \<or>
          deadline (proposals (dao_run s ecs) ! unat i) < timestamp e \<or>
          voted (dao_run s ecs) i (sender e) \<or>
          \<not> unat (yesVotes (proposals (dao_run s ecs) ! unat i)) + 1 < 2 ^ 256"
    using len by (rule voteYes_isl_iff)
next
  fix ecs and e :: env and b
  assume f: "finalizeProposal e0 j t = Inr t'" and le: "timestamp e0 \<le> timestamp e"
  have t': "unat j < length (proposalsS t')" "finalized (proposalsS t' ! unat j)"
    "deadlineS (proposalsS t' ! unat j) < timestamp e0"
    using finalizeProposal_Inr [OF f] by simp_all
  have len: "unat j < length (proposalsS (simple_run t' ecs))"
    using t'(1) simple_run_length [of t' ecs] by simp
  show fin: "finalized (proposalsS (simple_run t' ecs) ! unat j)"
    using t'(1,2) by (rule simple_run_finalized)
  have "deadlineS (proposalsS (simple_run t' ecs) ! unat j) < timestamp e"
    using t'(1,3) le by (simp add: simple_run_deadlineS)
  with len show "isl (vote e j b (simple_run t' ecs))"
    by (rule vote_past_deadline_fails)
  show "isl (finalizeProposal e j (simple_run t' ecs))"
    using len fin by (rule finalizeProposal_finalized_fails)
qed

theorem flag_forecloses_execution_witness:
  "executed (proposals dao_executed ! 0) \<and>
   isl (execute \<lparr>sender = 2, timestamp = 500\<rparr> 0
          (dao_run dao_executed [(\<lparr>sender = 1, timestamp = 450\<rparr>, UpdateQuorum 0)])) \<and>
   isl (cancelProposal \<lparr>sender = 1, timestamp = 500\<rparr> 0
          (dao_run dao_executed [(\<lparr>sender = 1, timestamp = 450\<rparr>, UpdateQuorum 0)])) \<and>
   finalizeProposal \<lparr>sender = 2, timestamp = 700000\<rparr> 0 simple_voted = Inr simple_finalized \<and>
   isl (vote \<lparr>sender = 2, timestamp = 700001\<rparr> 0 (Some 1) (simple_run simple_finalized [])) \<and>
   isl (finalizeProposal \<lparr>sender = 1, timestamp = 700001\<rparr> 0 (simple_run simple_finalized []))"
proof -
  have ex: "unat (0::uint256) < length (proposals dao_executed) \<and>
            executed (proposals dao_executed ! unat (0::uint256))"
    by (simp add: dao_executed_eq)
  have fin: "finalizeProposal \<lparr>sender = 2, timestamp = 700000\<rparr> 0 simple_voted
               = Inr simple_finalized"
    by (simp add: simple_finalized_eq simple_voted_eq finalizeProposal_def Let_def
        word_le_nat_alt)
  have le: "timestamp \<lparr>sender = 2, timestamp = 700000\<rparr>
              \<le> timestamp \<lparr>sender = 2, timestamp = 700001::uint256\<rparr>"
           "timestamp \<lparr>sender = 2, timestamp = 700000\<rparr>
              \<le> timestamp \<lparr>sender = 1, timestamp = 700001::uint256\<rparr>"
    by (simp_all add: word_le_nat_alt)
  note dao = flag_forecloses_execution
      [of 0 dao_executed "\<lparr>sender = 2, timestamp = 700000\<rparr>" 0 simple_voted simple_finalized,
       THEN conjunct1, rule_format, OF ex]
  note simple = flag_forecloses_execution
      [of 0 dao_executed "\<lparr>sender = 2, timestamp = 700000\<rparr>" 0 simple_voted simple_finalized,
       THEN conjunct2, rule_format, OF fin]
  show ?thesis
    using dao [of "[]" "\<lparr>sender = 2, timestamp = 500\<rparr>"]
      dao [of "[(\<lparr>sender = 1, timestamp = 450\<rparr>, UpdateQuorum 0)]" "\<lparr>sender = 2, timestamp = 500\<rparr>"]
      dao [of "[(\<lparr>sender = 1, timestamp = 450\<rparr>, UpdateQuorum 0)]" "\<lparr>sender = 1, timestamp = 500\<rparr>"]
      simple [OF le(1), of "[]" "Some 1"] simple [OF le(2), of "[]" "Some 1"] fin
    by simp
qed

lemma voteYes_Inr:
  "voteYes e i s = Inr s' \<Longrightarrow>
     unat i < length (proposals s') \<and> voted s' i (sender e) \<and> \<not> voted s i (sender e)"
  by (auto simp: voteYes_def Let_def checked_add_def split: if_splits)

lemma voteYes_voted:
  "unat i < length (proposals s) \<Longrightarrow> voted s i (sender e) \<Longrightarrow>
     voteYes e i s =
       (if \<not> isMember s (sender e) then Inl NotMember
        else if deadline (proposals s ! unat i) < timestamp e then Inl PastDeadline
        else Inl AlreadyVoted)"
  by (simp add: voteYes_def Let_def)

lemma vote_Inr:
  "vote e j b t = Inr t' \<Longrightarrow>
     unat j < length (proposalsS t') \<and> hasVoted t' j (sender e) \<and> \<not> hasVoted t j (sender e)"
  by (auto simp: vote_def Let_def FHE_fromExternal_def split: if_splits option.splits)

lemma vote_hasVoted:
  "unat j < length (proposalsS t) \<Longrightarrow> hasVoted t j (sender e) \<Longrightarrow>
     vote e j b t =
       (if deposits t (sender e) < minDepositToVote t then Inl InsufficientDeposit
        else Inl AlreadyVoted)"
  by (simp add: vote_def Let_def)

text \<open>
  Claim C5 says that every later vote attempt of an identity that has voted fails with
  \<^verbatim>\<open>AlreadyVoted\<close>. \<^verbatim>\<open>voteYes\<close> checks the deadline before the vote record: member 2,
  who has voted on proposal 0, is answered \<^verbatim>\<open>PastDeadline\<close> after the deadline.
\<close>

theorem voteYes_again_PastDeadline_counterexample:
  "voted dao_one_vote 0 2 \<and>
   voteYes \<lparr>sender = 2, timestamp = 90000\<rparr> 0 dao_one_vote = Inl PastDeadline \<and>
   PastDeadline \<noteq> AlreadyVoted"
  by (simp add: dao_one_vote_eq voteYes_def Let_def)

text \<open>
  Claim C5, amended. In both variants a successful vote finds the (proposal, identity)
  flag unset and sets it; no transaction clears it; and every later vote attempt of that
  identity on that proposal fails, so at most one ever succeeds. The failure is
  \<^verbatim>\<open>AlreadyVoted\<close> whenever the checks made before the vote record pass: in the
  Confidential-spend variant the caller is still a member and the time is at most the
  deadline, in the Simple variant the caller's deposit is still at least the minimum.
  Otherwise it is the error of the first earlier check that does not pass:
  \<^verbatim>\<open>NotMember\<close>, then \<^verbatim>\<open>PastDeadline\<close>, in the Confidential-spend variant,
  \<^verbatim>\<open>InsufficientDeposit\<close> in the Simple variant.
\<close>

theorem one_vote_per_identity:
  "(voteYes e i s = Inr s' \<longrightarrow>
      \<not> voted s i (sender e) \<and>
      (\<forall>ecs e'. sender e' = sender e \<longrightarrow>
         voted (dao_run s' ecs) i (sender e) \<and>
         isl (voteYes e' i (dao_run s' ecs)) \<and>
         (isMember (dao_run s' ecs) (sender e') \<and>
          timestamp e' \<le> deadline (proposals (dao_run s' ecs) ! unat i) \<longrightarrow>
            voteYes e' i (dao_run s' ecs) = Inl AlreadyVoted) \<and>
         voteYes e' i (dao_run s' ecs) =
           Inl (if \<not> isMember (dao_run s' ecs) (sender e') then NotMember
                else if deadline (proposals (dao_run s' ecs) ! unat i) < timestamp e'
                  then PastDeadline
                else AlreadyVoted))) \<and>
   (vote ev j b t = Inr t' \<longrightarrow>
      \<not> hasVoted t j (sender ev) \<and>
      (\<forall>ecs e' b'. sender e' = sender ev \<longrightarrow>
         hasVoted (simple_run t' ecs) j (sender ev) \<and>
         isl (vote e' j b' (simple_run t' ecs)) \<and>
         (minDepositToVote (simple_run t' ecs) \<le> deposits (simple_run t' ecs) (sender e') \<longrightarrow>
            vote e' j b' (simple_run t' ecs) = Inl AlreadyVoted) \<and>
         vote e' j b' (simple_run t' ecs) =
           Inl (if deposits (simple_run t' ecs) (sender e') < minDepositToVote (simple_run t' ecs)
                  then InsufficientDeposit
                else AlreadyVoted)))"
proof (intro conjI impI allI)
  assume "voteYes e i s = Inr s'"
  then show "\<not> voted s i (sender e)"
    using voteYes_Inr by blast
next
  fix ecs and e' :: env
  assume v: "voteYes e i s = Inr s'" and same: "sender e' = sender e"
  have len: "unat i < length (proposals (dao_run s' ecs))"
    using voteYes_Inr [OF v] dao_run_length [of s' ecs] by simp
  show flag: "voted (dao_run s' ecs) i (sender e)"
    using voteYes_Inr [OF v] by (simp add: dao_run_voted)
  have flag': "voted (dao_run s' ecs) i (sender e')"
    using flag same by simp
  show "isl (voteYes e' i (dao_run s' ecs))"
    using len flag' by (simp add: voteYes_voted)
  show "voteYes e' i (dao_run s' ecs) = Inl AlreadyVoted"
    if "isMember (dao_run s' ecs) (sender e') \<and>
        timestamp e' \<le> deadline (proposals (dao_run s' ecs) ! unat i)"
    using len flag' that by (simp add: voteYes_voted word_le_nat_alt word_less_nat_alt)
  show "voteYes e' i (dao_run s' ecs) =
          Inl (if \<not> isMember (dao_run s' ecs) (sender e') then NotMember
               else if deadline (proposals (dao_run s' ecs) ! unat i) < timestamp e'
                 then PastDeadline
               else AlreadyVoted)"
    using len flag' by (simp add: voteYes_voted)
next
  assume "vote ev j b t = Inr t'"
  then show "\<not> hasVoted t j (sender ev)"
    using vote_Inr by blast
next
  fix ecs b' and e' :: env
  assume v: "vote ev j b t = Inr t'" and same: "sender e' = sender ev"
  have len: "unat j < length (proposalsS (simple_run t' ecs))"
    using vote_Inr [OF v] simple_run_length [of t' ecs] by simp
  show flag: "hasVoted (simple_run t' ecs) j (sender ev)"
    using vote_Inr [OF v] by (simp add: simple_run_hasVoted)
  have flag': "hasVoted (simple_run t' ecs) j (sender e')"
    using flag same by simp
  show "isl (vote e' j b' (simple_run t' ecs))"
    using len flag' by (simp add: vote_hasVoted)
  show "vote e' j b' (simple_run t' ecs) = Inl AlreadyVoted"
    if "minDepositToVote (simple_run t' ecs) \<le> deposits (simple_run t' ecs) (sender e')"
    using len flag' that by (simp add: vote_hasVoted word_le_nat_alt word_less_nat_alt)
  show "vote e' j b' (simple_run t' ecs) =
          Inl (if deposits (simple_run t' ecs) (sender e') < minDepositToVote (simple_run t' ecs)
                 then InsufficientDeposit
               else AlreadyVoted)"
    using len flag' by (simp add: vote_hasVoted)
qed

theorem one_vote_per_identity_witness:
  "voteYes \<lparr>sender = 2, timestamp = 200\<rparr> 0 dao_funded = Inr dao_one_vote \<and>
   voteYes \<lparr>sender = 2, timestamp = 250\<rparr> 0 dao_one_vote = Inl AlreadyVoted \<and>
   isl (voteYes \<lparr>sender = 2, timestamp = 90000\<rparr> 0 dao_one_vote) \<and>
   vote \<lparr>sender = 2, timestamp = 2000\<rparr> 0 (Some 1) simple_open = Inr simple_voted \<and>
   vote \<lparr>sender = 2, timestamp = 3000\<rparr> 0 (Some 0) simple_voted = Inl AlreadyVoted \<and>
   voteYes \<lparr>sender = 2, timestamp = 90000\<rparr> 0 dao_one_vote = Inl PastDeadline \<and>
   voteYes \<lparr>sender = 2, timestamp = 250\<rparr> 0
     (dao_run dao_one_vote [(\<lparr>sender = 1, timestamp = 220\<rparr>, RemoveMember 2)])
     = Inl NotMember \<and>
   vote \<lparr>sender = 2, timestamp = 3000\<rparr> 0 (Some 0)
     (simple_run simple_voted
        [(\<lparr>sender = 2, timestamp = 2500\<rparr>, Withdraw True 10000000000000000)])
     = Inl InsufficientDeposit"
proof -
  have v: "voteYes \<lparr>sender = 2, timestamp = 200\<rparr> 0 dao_funded = Inr dao_one_vote"
    by (simp add: dao_funded_eq dao_one_vote_eq voteYes_def Let_def checked_add_def)
  have w: "vote \<lparr>sender = 2, timestamp = 2000\<rparr> 0 (Some 1) simple_open = Inr simple_voted"
    by (simp add: simple_open_eq simple_voted_eq vote_def Let_def FHE_fromExternal_def
        FHE_select_def FHE_eq_def FHE_add_def FHE_asEuint64_def)
  note dao = one_vote_per_identity
      [of "\<lparr>sender = 2, timestamp = 200\<rparr>" 0 dao_funded dao_one_vote
          "\<lparr>sender = 2, timestamp = 2000\<rparr>" 0 "Some 1" simple_open simple_voted,
       THEN conjunct1, rule_format, OF v, THEN conjunct2, rule_format]
  note simple = one_vote_per_identity
      [of "\<lparr>sender = 2, timestamp = 200\<rparr>" 0 dao_funded dao_one_vote
          "\<lparr>sender = 2, timestamp = 2000\<rparr>" 0 "Some 1" simple_open simple_voted,
       THEN conjunct2, rule_format, OF w, THEN conjunct2, rule_format]
  have a: "voteYes \<lparr>sender = 2, timestamp = 250\<rparr> 0 dao_one_vote = Inl AlreadyVoted"
    using dao [of "\<lparr>sender = 2, timestamp = 250\<rparr>" "[]"]
    by (simp add: dao_one_vote_eq word_le_nat_alt)
  have b: "isl (voteYes \<lparr>sender = 2, timestamp = 90000\<rparr> 0 dao_one_vote)"
    using dao [of "\<lparr>sender = 2, timestamp = 90000\<rparr>" "[]"] by simp
  have c: "vote \<lparr>sender = 2, timestamp = 3000\<rparr> 0 (Some 0) simple_voted = Inl AlreadyVoted"
    using simple [of "\<lparr>sender = 2, timestamp = 3000\<rparr>" "[]" "Some 0"]
    by (simp add: simple_voted_eq word_le_nat_alt)
  have d: "voteYes \<lparr>sender = 2, timestamp = 90000\<rparr> 0 dao_one_vote = Inl PastDeadline"
    using dao [of "\<lparr>sender = 2, timestamp = 90000\<rparr>" "[]"]
    by (simp add: dao_one_vote_eq word_less_nat_alt)
  have f: "voteYes \<lparr>sender = 2, timestamp = 250\<rparr> 0
             (dao_run dao_one_vote [(\<lparr>sender = 1, timestamp = 220\<rparr>, RemoveMember 2)])
             = Inl NotMember"
    using dao [of "\<lparr>sender = 2, timestamp = 250\<rparr>"
                  "[(\<lparr>sender = 1, timestamp = 220\<rparr>, RemoveMember 2)]"]
    by (simp add: dao_one_vote_eq dao_tx_def removeMember_def)
  have g: "vote \<lparr>sender = 2, timestamp = 3000\<rparr> 0 (Some 0)
             (simple_run simple_voted
                [(\<lparr>sender = 2, timestamp = 2500\<rparr>, Withdraw True 10000000000000000)])
             = Inl InsufficientDeposit"
    using simple [of "\<lparr>sender = 2, timestamp = 3000\<rparr>"
                     "[(\<lparr>sender = 2, timestamp = 2500\<rparr>, Withdraw True 10000000000000000)]"
                     "Some 0"]
    by (simp add: simple_voted_eq simple_tx_def withdraw_def word_less_nat_alt)
  show ?thesis using v w a b c d f g by simp
qed

lemma dao_step_errors:
  "dao_step e c s = Inl err \<Longrightarrow>
     TreasuryDAO_error err \<or> err = Panic ARRAY_OUT_OF_BOUNDS \<or>
     err = Panic ARITHMETIC_OVERFLOW \<or> err = InvalidProof"
  by (cases c)
     (auto simp: dao_defs Let_def split: if_splits sum.splits option.splits)

lemma dao_view_errors:
  "dao_external_view 0 w s = Inl err \<Longrightarrow> err = Panic ARRAY_OUT_OF_BOUNDS"
  by (cases w)
     (auto simp: dao_external_view_def getExecutedAmount_def getRequestedAmount_def
           split: if_splits)

lemma constructor_errors:
  "constructor acl e0 ms q = Inl err \<Longrightarrow> err = SenderNotAllowed \<and> \<not> acl"
  by (auto simp: constructor_def FHE_allow_def Let_def split: if_splits)

text \<open>
  Claim C6 says that an out-of-range proposal id makes the accessors fail with one of the
  nine named errors. \<^verbatim>\<open>TreasuryDAO.sol\<close> indexes \<^verbatim>\<open>proposals[id]\<close> with no range check
  of its own: on a contract without proposals \<^verbatim>\<open>getExecutedAmount(0)\<close> fails with the
  array-index panic, which is none of the named errors.
\<close>

theorem getExecutedAmount_out_of_range_counterexample:
  "getExecutedAmount 0 dao_init = Inl (Panic ARRAY_OUT_OF_BOUNDS) \<and>
   \<not> TreasuryDAO_error (Panic ARRAY_OUT_OF_BOUNDS)"
  by (simp add: dao_init_eq getExecutedAmount_def)

text \<open>
  Claim C6, amended. Gas aside, every failure of the constructor and of the eleven
  functions that \<^verbatim>\<open>TreasuryDAO.sol\<close> declares, for every caller, time, attached value,
  argument and state, is one of the nine named errors or one of five generic failures:
  the empty revert of an entry point that is not payable (all of them, and the
  constructor) when the call carries value; the array-index panic for an out-of-range
  proposal id; the arithmetic-overflow panic; the failure of the ciphertext import on an
  invalid proof; and, in the constructor only, the refusal \<^verbatim>\<open>SenderNotAllowed\<close> of the
  grant on the never-assigned treasury handle. The constructor fails only with the first
  or the last of these, the accessors only with the empty revert or the array-index
  panic. Called without value and with an out-of-range proposal id,
  \<^verbatim>\<open>getExecutedAmount\<close> and \<^verbatim>\<open>getRequestedAmount\<close> fail with the array-index panic;
  \<^verbatim>\<open>voteYes\<close> and \<^verbatim>\<open>execute\<close> fail with \<^verbatim>\<open>NotMember\<close> for a non-member and with the
  panic for a member; \<^verbatim>\<open>cancelProposal\<close> fails with \<^verbatim>\<open>NotOwner\<close> for a caller other
  than the owner and with the panic for the owner.
\<close>

theorem TreasuryDAO_failures:
  "(deploy v acl e0 ms q = Inl err \<longrightarrow> err = NonPayable \<or> err = SenderNotAllowed) \<and>
   (dao_external v e c s = Inl err \<longrightarrow>
      TreasuryDAO_error err \<or> err = Panic ARRAY_OUT_OF_BOUNDS \<or>
      err = Panic ARITHMETIC_OVERFLOW \<or> err = InvalidProof \<or> err = NonPayable) \<and>
   (dao_external_view v w s = Inl err \<longrightarrow>
      err = Panic ARRAY_OUT_OF_BOUNDS \<or> err = NonPayable) \<and>
   (v \<noteq> 0 \<longrightarrow>
      deploy v acl e0 ms q = Inl NonPayable \<and>
      dao_external v e c s = Inl NonPayable \<and>
      dao_external_view v w s = Inl NonPayable) \<and>
   deploy 0 False e0 ms q = Inl SenderNotAllowed \<and>
   dao_external 0 e c s = dao_step e c s \<and>
   dao_external_view 0 (GetExecutedAmount i) s = getExecutedAmount i s \<and>
   dao_external_view 0 (GetRequestedAmount i) s = getRequestedAmount i s \<and>
   (dao_step e c s = Inl err \<longrightarrow>
      TreasuryDAO_error err \<or> err = Panic ARRAY_OUT_OF_BOUNDS \<or>
      err = Panic ARITHMETIC_OVERFLOW \<or> err = InvalidProof) \<and>
   (getExecutedAmount i s = Inl err \<or> getRequestedAmount i s = Inl err
      \<longrightarrow> err = Panic ARRAY_OUT_OF_BOUNDS) \<and>
   (\<not> unat i < length (proposals s) \<longrightarrow>
      getExecutedAmount i s = Inl (Panic ARRAY_OUT_OF_BOUNDS) \<and>
      getRequestedAmount i s = Inl (Panic ARRAY_OUT_OF_BOUNDS) \<and>
      voteYes e i s = Inl (if isMember s (sender e) then Panic ARRAY_OUT_OF_BOUNDS else NotMember) \<and>
      execute e i s = Inl (if isMember s (sender e) then Panic ARRAY_OUT_OF_BOUNDS else NotMember) \<and>
      cancelProposal e i s =
        Inl (if sender e = owner s then Panic ARRAY_OUT_OF_BOUNDS else NotOwner))"
proof -
  have dep: "deploy v acl e0 ms q = Inl err \<longrightarrow> err = NonPayable \<or> err = SenderNotAllowed"
    using constructor_errors [of acl e0 ms q err]
    by (auto simp: deploy_def split: if_splits)
  have step: "dao_step e c s = Inl err \<longrightarrow>
      TreasuryDAO_error err \<or> err = Panic ARRAY_OUT_OF_BOUNDS \<or>
      err = Panic ARITHMETIC_OVERFLOW \<or> err = InvalidProof"
    using dao_step_errors by blast
  have ext: "dao_external v e c s = Inl err \<longrightarrow>
      TreasuryDAO_error err \<or> err = Panic ARRAY_OUT_OF_BOUNDS \<or>
      err = Panic ARITHMETIC_OVERFLOW \<or> err = InvalidProof \<or> err = NonPayable"
    using step by (auto simp: dao_external_def split: if_splits)
  have view: "dao_external_view v w s = Inl err \<longrightarrow>
      err = Panic ARRAY_OUT_OF_BOUNDS \<or> err = NonPayable"
  proof (cases "v = 0")
    case True
    then show ?thesis using dao_view_errors [of w s err] by simp
  next
    case False
    then show ?thesis by (simp add: dao_external_view_def)
  qed
  have val: "v \<noteq> 0 \<longrightarrow>
      deploy v acl e0 ms q = Inl NonPayable \<and>
      dao_external v e c s = Inl NonPayable \<and>
      dao_external_view v w s = Inl NonPayable"
    by (simp add: deploy_def dao_external_def dao_external_view_def)
  have body: "deploy 0 False e0 ms q = Inl SenderNotAllowed \<and>
      dao_external 0 e c s = dao_step e c s \<and>
      dao_external_view 0 (GetExecutedAmount i) s = getExecutedAmount i s \<and>
      dao_external_view 0 (GetRequestedAmount i) s = getRequestedAmount i s"
    by (simp add: deploy_def constructor_refused dao_external_def dao_external_view_def)
  have acc: "getExecutedAmount i s = Inl err \<or> getRequestedAmount i s = Inl err
      \<longrightarrow> err = Panic ARRAY_OUT_OF_BOUNDS"
    by (auto simp: getExecutedAmount_def getRequestedAmount_def split: if_splits)
  have oob: "\<not> unat i < length (proposals s) \<longrightarrow>
      getExecutedAmount i s = Inl (Panic ARRAY_OUT_OF_BOUNDS) \<and>
      getRequestedAmount i s = Inl (Panic ARRAY_OUT_OF_BOUNDS) \<and>
      voteYes e i s = Inl (if isMember s (sender e) then Panic ARRAY_OUT_OF_BOUNDS else NotMember) \<and>
      execute e i s = Inl (if isMember s (sender e) then Panic ARRAY_OUT_OF_BOUNDS else NotMember) \<and>
      cancelProposal e i s =
        Inl (if sender e = owner s then Panic ARRAY_OUT_OF_BOUNDS else NotOwner)"
    by (simp add: getExecutedAmount_def getRequestedAmount_def voteYes_def execute_def
        cancelProposal_def)
  show ?thesis
    using dep ext view val body step acc oob by blast
qed

theorem TreasuryDAO_failures_witness:
  "dao_step \<lparr>sender = 2, timestamp = 500\<rparr> (Execute 7) dao_voted
     = Inl (Panic ARRAY_OUT_OF_BOUNDS) \<and>
   getExecutedAmount 7 dao_voted = Inl (Panic ARRAY_OUT_OF_BOUNDS) \<and>
   getRequestedAmount 7 dao_voted = Inl (Panic ARRAY_OUT_OF_BOUNDS) \<and>
   voteYes \<lparr>sender = 2, timestamp = 500\<rparr> 7 dao_voted = Inl (Panic ARRAY_OUT_OF_BOUNDS) \<and>
   execute \<lparr>sender = 2, timestamp = 500\<rparr> 7 dao_voted = Inl (Panic ARRAY_OUT_OF_BOUNDS) \<and>
   cancelProposal \<lparr>sender = 2, timestamp = 500\<rparr> 7 dao_voted = Inl NotOwner \<and>
   dao_external 0 \<lparr>sender = 2, timestamp = 500\<rparr> (Execute 7) dao_voted
     = Inl (Panic ARRAY_OUT_OF_BOUNDS) \<and>
   dao_external_view 0 (GetExecutedAmount 7) dao_voted = Inl (Panic ARRAY_OUT_OF_BOUNDS) \<and>
   dao_external 5 \<lparr>sender = 2, timestamp = 500\<rparr> (Execute 0) dao_voted = Inl NonPayable \<and>
   dao_external_view 5 GetTreasury dao_voted = Inl NonPayable \<and>
   deploy 5 True \<lparr>sender = 1, timestamp = 0\<rparr> [2, 3, 4] 2 = Inl NonPayable \<and>
   deploy 0 False \<lparr>sender = 1, timestamp = 0\<rparr> [2, 3, 4] 2 = Inl SenderNotAllowed"
proof -
  have a: "\<not> unat (7::uint256) < length (proposals dao_voted)"
    by (simp add: dao_voted_eq)
  have b: "(5::uint256) \<noteq> 0"
    by simp
  note T0 = TreasuryDAO_failures
      [where v = 0 and acl = False and ?e0.0 = "\<lparr>sender = 1, timestamp = 0\<rparr>"
         and ms = "[2, 3, 4]" and q = 2 and err = "Panic ARRAY_OUT_OF_BOUNDS"
         and e = "\<lparr>sender = 2, timestamp = 500\<rparr>" and c = "Execute 7" and s = dao_voted
         and w = "GetExecutedAmount 7" and i = 7]
  note T5 = TreasuryDAO_failures
      [where v = 5 and acl = True and ?e0.0 = "\<lparr>sender = 1, timestamp = 0\<rparr>"
         and ms = "[2, 3, 4]" and q = 2 and err = NonPayable
         and e = "\<lparr>sender = 2, timestamp = 500\<rparr>" and c = "Execute 0" and s = dao_voted
         and w = GetTreasury and i = 0]
  have oob: "getExecutedAmount 7 dao_voted = Inl (Panic ARRAY_OUT_OF_BOUNDS) \<and>
      getRequestedAmount 7 dao_voted = Inl (Panic ARRAY_OUT_OF_BOUNDS) \<and>
      voteYes \<lparr>sender = 2, timestamp = 500\<rparr> 7 dao_voted = Inl (Panic ARRAY_OUT_OF_BOUNDS) \<and>
      execute \<lparr>sender = 2, timestamp = 500\<rparr> 7 dao_voted = Inl (Panic ARRAY_OUT_OF_BOUNDS) \<and>
      cancelProposal \<lparr>sender = 2, timestamp = 500\<rparr> 7 dao_voted = Inl NotOwner"
    using T0 a by (simp add: dao_voted_eq)
  have ext: "dao_external 0 \<lparr>sender = 2, timestamp = 500\<rparr> (Execute 7) dao_voted
               = dao_step \<lparr>sender = 2, timestamp = 500\<rparr> (Execute 7) dao_voted \<and>
             dao_external_view 0 (GetExecutedAmount 7) dao_voted = getExecutedAmount 7 dao_voted \<and>
             deploy 0 False \<lparr>sender = 1, timestamp = 0\<rparr> [2, 3, 4] 2 = Inl SenderNotAllowed"
    using T0 by blast
  have pay: "dao_external 5 \<lparr>sender = 2, timestamp = 500\<rparr> (Execute 0) dao_voted = Inl NonPayable \<and>
             dao_external_view 5 GetTreasury dao_voted = Inl NonPayable \<and>
             deploy 5 True \<lparr>sender = 1, timestamp = 0\<rparr> [2, 3, 4] 2 = Inl NonPayable"
    using T5 b by blast
  show ?thesis
    using oob ext pay by simp
qed

section \<open>Claims about the Simple variant\<close>

text \<open>
  Claim C4. A \<^verbatim>\<open>vote\<close> that passes its checks (the proposal exists, the caller's deposit
  reaches the minimum, the caller has not voted, the time is at most the deadline)
  succeeds for every imported ballot value and marks the caller as having voted. In
  plaintext terms a ballot of 1 adds one to the yes tally and nothing to the no tally, a
  ballot of 0 adds one to the no tally and nothing to the yes tally, and any other ballot
  changes neither. The tallies are 64-bit values: the addition is that of \<^verbatim>\<open>euint64\<close>,
  and it is the addition of natural numbers as long as the tally is below its maximum.
\<close>

theorem vote_tally:
  assumes "unat i < length (proposalsS s)"
    and "minDepositToVote s \<le> deposits s (sender e)"
    and "\<not> hasVoted s i (sender e)"
    and "timestamp e \<le> deadlineS (proposalsS s ! unat i)"
  shows "\<exists>s'. vote e i (Some b) s = Inr s' \<and>
     hasVoted s' i (sender e) \<and>
     encryptedYesVotes (proposalsS s' ! unat i) =
       encryptedYesVotes (proposalsS s ! unat i) + (if b = 1 then 1 else 0) \<and>
     encryptedNoVotes (proposalsS s' ! unat i) =
       encryptedNoVotes (proposalsS s ! unat i) + (if b = 0 then 1 else 0) \<and>
     (unat (encryptedYesVotes (proposalsS s ! unat i)) + 1 < 2 ^ 64 \<longrightarrow>
        unat (encryptedYesVotes (proposalsS s' ! unat i)) =
          unat (encryptedYesVotes (proposalsS s ! unat i)) + (if b = 1 then 1 else 0)) \<and>
     (unat (encryptedNoVotes (proposalsS s ! unat i)) + 1 < 2 ^ 64 \<longrightarrow>
        unat (encryptedNoVotes (proposalsS s' ! unat i)) =
          unat (encryptedNoVotes (proposalsS s ! unat i)) + (if b = 0 then 1 else 0))"
  using assms
  by (simp add: vote_def Let_def FHE_fromExternal_def FHE_select_def FHE_eq_def FHE_add_def
      FHE_asEuint64_def word_le_nat_alt word_less_nat_alt unat_word_ariths)

theorem vote_tally_witness:
  "(\<exists>s'. vote \<lparr>sender = 2, timestamp = 2000\<rparr> 0 (Some 1) simple_open = Inr s' \<and>
      encryptedYesVotes (proposalsS s' ! 0) = 1 \<and> encryptedNoVotes (proposalsS s' ! 0) = 0) \<and>
   (\<exists>s'. vote \<lparr>sender = 2, timestamp = 2000\<rparr> 0 (Some 0) simple_open = Inr s' \<and>
      encryptedYesVotes (proposalsS s' ! 0) = 0 \<and> encryptedNoVotes (proposalsS s' ! 0) = 1) \<and>
   (\<exists>s'. vote \<lparr>sender = 2, timestamp = 2000\<rparr> 0 (Some 5) simple_open = Inr s' \<and>
      hasVoted s' 0 2 \<and>
      encryptedYesVotes (proposalsS s' ! 0) = 0 \<and> encryptedNoVotes (proposalsS s' ! 0) = 0)"
proof -
  have h: "unat (0::uint256) < length (proposalsS simple_open)"
    "minDepositToVote simple_open \<le> deposits simple_open (sender \<lparr>sender = 2, timestamp = 2000\<rparr>)"
    "\<not> hasVoted simple_open 0 (sender \<lparr>sender = 2, timestamp = 2000\<rparr>)"
    "timestamp \<lparr>sender = 2, timestamp = 2000\<rparr> \<le> deadlineS (proposalsS simple_open ! unat (0::uint256))"
    by (simp_all add: simple_open_eq word_le_nat_alt)
  show ?thesis
    using vote_tally [OF h, of 1] vote_tally [OF h, of 0] vote_tally [OF h, of 5]
    by (auto simp: simple_open_eq)
qed

text \<open>
  Claim C7. On an existing proposal \<^verbatim>\<open>finalizeProposal\<close> succeeds exactly when the
  proposal is not finalized, the caller is the owner or the proposer, and the current time
  is strictly after the deadline. Otherwise it fails, in the order of the checks, with
  \<^verbatim>\<open>AlreadyFinalized\<close>, with \<^verbatim>\<open>NotProposer\<close>, or with \<^verbatim>\<open>VotingEnded\<close> when the time
  is at most the deadline. After a success the flag is set, and any second call answers
  \<^verbatim>\<open>AlreadyFinalized\<close>.
\<close>

theorem finalizeProposal_outcomes:
  assumes "unat i < length (proposalsS s)"
  shows "(\<not> isl (finalizeProposal e i s) \<longleftrightarrow>
            \<not> finalized (proposalsS s ! unat i) \<and>
            (sender e = ownerS s \<or> sender e = proposer (proposalsS s ! unat i)) \<and>
            deadlineS (proposalsS s ! unat i) < timestamp e) \<and>
         (finalized (proposalsS s ! unat i) \<longrightarrow> finalizeProposal e i s = Inl AlreadyFinalized) \<and>
         (\<not> finalized (proposalsS s ! unat i) \<and> sender e \<noteq> ownerS s \<and>
            sender e \<noteq> proposer (proposalsS s ! unat i)
            \<longrightarrow> finalizeProposal e i s = Inl NotProposer) \<and>
         (\<not> finalized (proposalsS s ! unat i) \<and>
            (sender e = ownerS s \<or> sender e = proposer (proposalsS s ! unat i)) \<and>
            timestamp e \<le> deadlineS (proposalsS s ! unat i)
            \<longrightarrow> finalizeProposal e i s = Inl VotingEnded) \<and>
         (\<forall>s' e'. finalizeProposal e i s = Inr s' \<longrightarrow>
            finalized (proposalsS s' ! unat i) \<and>
            finalizeProposal e' i s' = Inl AlreadyFinalized)"
  using assms
  by (auto simp: finalizeProposal_def Let_def word_le_nat_alt word_less_nat_alt)

theorem finalizeProposal_outcomes_witness:
  "finalizeProposal \<lparr>sender = 2, timestamp = 700000\<rparr> 0 simple_voted = Inr simple_finalized \<and>
   finalizeProposal \<lparr>sender = 2, timestamp = 700000\<rparr> 0 simple_finalized = Inl AlreadyFinalized \<and>
   finalizeProposal \<lparr>sender = 5, timestamp = 700000\<rparr> 0 simple_voted = Inl NotProposer \<and>
   finalizeProposal \<lparr>sender = 1, timestamp = 605800\<rparr> 0 simple_voted = Inl VotingEnded"
proof -
  have len: "unat (0::uint256) < length (proposalsS simple_voted)"
    by (simp add: simple_voted_eq)
  have fin: "finalizeProposal \<lparr>sender = 2, timestamp = 700000\<rparr> 0 simple_voted
               = Inr simple_finalized"
    by (simp add: simple_finalized_eq simple_voted_eq finalizeProposal_def Let_def
        word_le_nat_alt)
  have a: "finalizeProposal \<lparr>sender = 2, timestamp = 700000\<rparr> 0 simple_finalized
             = Inl AlreadyFinalized"
    using finalizeProposal_outcomes [OF len, of "\<lparr>sender = 2, timestamp = 700000\<rparr>"] fin
    by blast
  have b: "finalizeProposal \<lparr>sender = 5, timestamp = 700000\<rparr> 0 simple_voted = Inl NotProposer"
    using finalizeProposal_outcomes [OF len, of "\<lparr>sender = 5, timestamp = 700000\<rparr>"]
    by (simp add: simple_voted_eq)
  have c: "finalizeProposal \<lparr>sender = 1, timestamp = 605800\<rparr> 0 simple_voted = Inl VotingEnded"
    using finalizeProposal_outcomes [OF len, of "\<lparr>sender = 1, timestamp = 605800\<rparr>"]
    by (simp add: simple_voted_eq)
  show ?thesis using fin a b c by simp
qed

lemma simple_tx_balance:
  "unat (deposits (simple_tx s ec) a) + debit a s ec = unat (deposits s a) + credit a s ec"
proof (cases ec)
  case (Pair e c)
  show ?thesis
  proof (cases c)
    case (Deposit v)
    then show ?thesis
      using Pair
      by (auto simp: simple_tx_def credit_def debit_def deposit_def checked_add_def
            unat_word_ariths split: if_splits)
  next
    case (Withdraw ok amt)
    then show ?thesis
      using Pair
      by (auto simp: simple_tx_def credit_def debit_def withdraw_def unat_sub
            word_le_nat_alt word_less_nat_alt split: if_splits)
  next
    case (CreateProposalS t d am r v)
    then show ?thesis
      using Pair
      by (auto simp: simple_tx_def credit_def debit_def createProposalS_def Let_def
            split: if_splits sum.splits)
  next
    case (Vote i x)
    then show ?thesis
      using Pair
      by (auto simp: simple_tx_def credit_def debit_def vote_def Let_def
            split: if_splits sum.splits)
  next
    case (FinalizeProposal i)
    then show ?thesis
      using Pair
      by (auto simp: simple_tx_def credit_def debit_def finalizeProposal_def Let_def
            split: if_splits)
  next
    case (UpdateMinDeposit m)
    then show ?thesis
      using Pair
      by (auto simp: simple_tx_def credit_def debit_def updateMinDeposit_def split: if_splits)
  qed
qed

lemma simple_run_balance:
  "unat (deposits (simple_run s ecs) a) + withdrawn a s ecs
     = unat (deposits s a) + deposited a s ecs"
proof (induction ecs arbitrary: s)
  case Nil
  show ?case by simp
next
  case (Cons ec ecs)
  have "unat (deposits (simple_run (simple_tx s ec) ecs) a) + withdrawn a (simple_tx s ec) ecs
          = unat (deposits (simple_tx s ec) a) + deposited a (simple_tx s ec) ecs"
    by (rule Cons.IH)
  then show ?case
    using simple_tx_balance [of s ec a] by simp
qed

text \<open>
  Claim C8. After any run of transactions the recorded deposit of an identity is what it
  was before, plus the values of its successful deposits, minus the amounts of its
  successful withdrawals, and the withdrawals never exceed what was there; from a freshly
  constructed contract the balance is the deposits minus the withdrawals. \<^verbatim>\<open>deposit\<close>
  with a value of zero fails with \<^verbatim>\<open>InvalidAmount\<close>; \<^verbatim>\<open>withdraw\<close> of more than the
  caller's balance fails with \<^verbatim>\<open>InvalidAmount\<close> and leaves the state as it was.
\<close>

theorem deposit_ledger:
  "unat (deposits (simple_run s ecs) a)
     = unat (deposits s a) + deposited a s ecs - withdrawn a s ecs \<and>
   withdrawn a s ecs \<le> unat (deposits s a) + deposited a s ecs \<and>
   unat (deposits (simple_run (constructorS e0 m) ecs) a)
     = deposited a (constructorS e0 m) ecs - withdrawn a (constructorS e0 m) ecs \<and>
   withdrawn a (constructorS e0 m) ecs \<le> deposited a (constructorS e0 m) ecs \<and>
   deposit e 0 s = Inl InvalidAmount \<and>
   (deposits s (sender e) < amt \<longrightarrow>
      withdraw e ok amt s = Inl InvalidAmount \<and> simple_tx s (e, Withdraw ok amt) = s)"
proof -
  have z: "unat (deposits (constructorS e0 m) a) = 0"
    by (simp add: constructorS_def)
  have bal: "unat (deposits (simple_run s ecs) a)
               = unat (deposits s a) + deposited a s ecs - withdrawn a s ecs \<and>
             withdrawn a s ecs \<le> unat (deposits s a) + deposited a s ecs"
    using simple_run_balance [of s ecs a] by arith
  have bal0: "unat (deposits (simple_run (constructorS e0 m) ecs) a)
               = deposited a (constructorS e0 m) ecs - withdrawn a (constructorS e0 m) ecs \<and>
             withdrawn a (constructorS e0 m) ecs \<le> deposited a (constructorS e0 m) ecs"
    using simple_run_balance [of "constructorS e0 m" ecs a] z by arith
  have fails: "deposit e 0 s = Inl InvalidAmount \<and>
     (deposits s (sender e) < amt \<longrightarrow>
        withdraw e ok amt s = Inl InvalidAmount \<and> simple_tx s (e, Withdraw ok amt) = s)"
    by (simp add: deposit_def withdraw_def simple_tx_def)
  show ?thesis
    using bal bal0 fails by blast
qed

theorem deposit_ledger_witness:
  "unat (deposits (simple_run simple_init ledger_run) 2) = 30 \<and>
   deposited 2 simple_init ledger_run = 50 \<and>
   withdrawn 2 simple_init ledger_run = 20 \<and>
   withdraw \<lparr>sender = 2, timestamp = 50\<rparr> True 31
     (simple_init\<lparr>deposits := (deposits simple_init)(2 := 30)\<rparr>) = Inl InvalidAmount"
proof -
  have lt: "deposits (simple_init\<lparr>deposits := (deposits simple_init)(2 := 30)\<rparr>)
              (sender \<lparr>sender = 2, timestamp = 50\<rparr>) < (31::uint256)"
    by (simp add: word_less_nat_alt)
  have d: "deposited 2 simple_init ledger_run = 50"
    by (simp add: ledger_run_def simple_init_eq credit_def simple_tx_def deposit_def
        withdraw_def checked_add_def word_less_nat_alt)
  have w: "withdrawn 2 simple_init ledger_run = 20"
    by (simp add: ledger_run_def simple_init_eq debit_def simple_tx_def deposit_def
        withdraw_def checked_add_def word_less_nat_alt)
  note T = deposit_ledger [of simple_init ledger_run 2 "\<lparr>sender = 1, timestamp = 0\<rparr>"
      1000000000000000 "\<lparr>sender = 2, timestamp = 50\<rparr>" 31 True]
  have b: "unat (deposits (simple_run simple_init ledger_run) 2) = 30"
    using T d w by (simp add: simple_init_eq)
  note T2 = deposit_ledger [of "simple_init\<lparr>deposits := (deposits simple_init)(2 := 30)\<rparr>" "[]"
      2 "\<lparr>sender = 1, timestamp = 0\<rparr>" 1000000000000000 "\<lparr>sender = 2, timestamp = 50\<rparr>" 31 True]
  have c: "withdraw \<lparr>sender = 2, timestamp = 50\<rparr> True 31
     (simple_init\<lparr>deposits := (deposits simple_init)(2 := 30)\<rparr>) = Inl InvalidAmount"
    using T2 lt by blast
  show ?thesis
    using b d w c by simp
qed

section \<open>Parameters changed by the owner\<close>

text \<open>
  Claim C10. The owner's \<^verbatim>\<open>updateQuorum\<close> succeeds in every state and at every time and
  stores the new quorum; \<^verbatim>\<open>execute\<close> by a member on a proposal that is not executed
  succeeds exactly when the quorum stored at the time of the call is at most the yes
  votes, so that changing the quorum alone turns a proposal executable or not. In the
  same way the owner's \<^verbatim>\<open>updateMinDeposit\<close> stores the new minimum, and a \<^verbatim>\<open>vote\<close> on
  an existing, open proposal by someone who has not voted succeeds exactly when the
  caller's deposit reaches the minimum stored at the time of the call.
\<close>

theorem quorum_read_at_execution:
  "(sender e = owner s \<longrightarrow> updateQuorum e q s = Inr (s\<lparr>quorum := q\<rparr>)) \<and>
   (isMember s (sender e') \<and> unat i < length (proposals s) \<and>
    \<not> executed (proposals s ! unat i) \<longrightarrow>
      (\<not> isl (execute e' i (s\<lparr>quorum := q\<rparr>)) \<longleftrightarrow> q \<le> yesVotes (proposals s ! unat i))) \<and>
   (sender ev = ownerS t \<longrightarrow>
      updateMinDeposit ev m t = Inr (t\<lparr>minDepositToVote := m\<rparr>)) \<and>
   (unat j < length (proposalsS t) \<and> \<not> hasVoted t j (sender ev') \<and>
    timestamp ev' \<le> deadlineS (proposalsS t ! unat j) \<longrightarrow>
      (\<not> isl (vote ev' j (Some b) (t\<lparr>minDepositToVote := m\<rparr>))
         \<longleftrightarrow> m \<le> deposits t (sender ev')))"
  by (auto simp: updateQuorum_def updateMinDeposit_def execute_def vote_def Let_def
      FHE_fromExternal_def word_le_nat_alt word_less_nat_alt)

theorem quorum_read_at_execution_witness:
  "isl (execute \<lparr>sender = 2, timestamp = 90000\<rparr> 0 dao_one_vote) \<and>
   updateQuorum \<lparr>sender = 1, timestamp = 90001\<rparr> 1 dao_one_vote
     = Inr (dao_one_vote\<lparr>quorum := 1\<rparr>) \<and>
   \<not> isl (execute \<lparr>sender = 2, timestamp = 90002\<rparr> 0 (dao_one_vote\<lparr>quorum := 1\<rparr>)) \<and>
   \<not> isl (vote \<lparr>sender = 2, timestamp = 2000\<rparr> 0 (Some 1) simple_open) \<and>
   updateMinDeposit \<lparr>sender = 1, timestamp = 1500\<rparr> 100000000000000000 simple_open
     = Inr (simple_open\<lparr>minDepositToVote := 100000000000000000\<rparr>) \<and>
   isl (vote \<lparr>sender = 2, timestamp = 2000\<rparr> 0 (Some 1)
          (simple_open\<lparr>minDepositToVote := 100000000000000000\<rparr>))"
proof -
  have q0: "dao_one_vote\<lparr>quorum := 2\<rparr> = dao_one_vote"
    by (simp add: dao_one_vote_eq)
  have m0: "simple_open\<lparr>minDepositToVote := 1000000000000000\<rparr> = simple_open"
    by (simp add: simple_open_eq)
  have a: "isl (execute \<lparr>sender = 2, timestamp = 90000\<rparr> 0 dao_one_vote)"
    using quorum_read_at_execution
            [of "\<lparr>sender = 1, timestamp = 90001\<rparr>" dao_one_vote 2
                "\<lparr>sender = 2, timestamp = 90000\<rparr>" 0
                "\<lparr>sender = 1, timestamp = 1500\<rparr>" simple_open 1000000000000000
                0 "\<lparr>sender = 2, timestamp = 2000\<rparr>" 1] q0
    by (simp add: dao_one_vote_eq word_le_nat_alt)
  have b: "\<not> isl (vote \<lparr>sender = 2, timestamp = 2000\<rparr> 0 (Some 1) simple_open)"
    using quorum_read_at_execution
            [of "\<lparr>sender = 1, timestamp = 90001\<rparr>" dao_one_vote 2
                "\<lparr>sender = 2, timestamp = 90000\<rparr>" 0
                "\<lparr>sender = 1, timestamp = 1500\<rparr>" simple_open 1000000000000000
                0 "\<lparr>sender = 2, timestamp = 2000\<rparr>" 1] m0
    by (simp add: simple_open_eq word_le_nat_alt)
  have c: "updateQuorum \<lparr>sender = 1, timestamp = 90001\<rparr> 1 dao_one_vote
             = Inr (dao_one_vote\<lparr>quorum := 1\<rparr>) \<and>
           \<not> isl (execute \<lparr>sender = 2, timestamp = 90002\<rparr> 0 (dao_one_vote\<lparr>quorum := 1\<rparr>)) \<and>
           updateMinDeposit \<lparr>sender = 1, timestamp = 1500\<rparr> 100000000000000000 simple_open
             = Inr (simple_open\<lparr>minDepositToVote := 100000000000000000\<rparr>) \<and>
           isl (vote \<lparr>sender = 2, timestamp = 2000\<rparr> 0 (Some 1)
                  (simple_open\<lparr>minDepositToVote := 100000000000000000\<rparr>))"
    using quorum_read_at_execution
            [of "\<lparr>sender = 1, timestamp = 90001\<rparr>" dao_one_vote 1
                "\<lparr>sender = 2, timestamp = 90002\<rparr>" 0
                "\<lparr>sender = 1, timestamp = 1500\<rparr>" simple_open 100000000000000000
                0 "\<lparr>sender = 2, timestamp = 2000\<rparr>" 1]
    by (simp add: dao_one_vote_eq simple_open_eq word_le_nat_alt)
  show ?thesis using a b c by simp
qed

end
